theory Spec2Isabelle
  imports Main "HOL-Library.Sublist" "HOL-Library.Word"
begin

unbundle bit_operations_syntax

section \<open>Go strings and the library functions the program calls\<close>

text \<open>
  A Go string is a sequence of bytes, and \<open>len\<close> counts bytes: it is modelled as
  \<^typ>\<open>string\<close>. The separators the program splits on (\<open>":"\<close>, \<open>"@"\<close>, \<open>"/"\<close>, \<open>"_"\<close>)
  are one byte each, so a separator is a \<^typ>\<open>char\<close>.

  \<open>strings.ToLower\<close> and \<open>unicode.ToUpper\<close> are modelled on the ASCII letters; every
  other byte is left as it is. The model is exact on ASCII text; on other text Go maps
  the Unicode letters as well. The general theorems below do not depend on which letters
  are mapped, and the concrete ones evaluate ASCII text.
\<close>

definition sep_colon :: char where "sep_colon = CHR '':''"
definition sep_at :: char where "sep_at = CHR ''@''"
definition sep_slash :: char where "sep_slash = CHR ''/''"
definition sep_underscore :: char where "sep_underscore = CHR ''_''"
definition quote :: string where "quote = [CHR 0x27]"
definition newline :: string where "newline = [CHR 0x0A]"

text \<open>\<open>plainColumnSep\<close> and \<open>smartColumnSep\<close> of the source.\<close>

definition plainColumnSep :: char where "plainColumnSep = sep_colon"
definition smartColumnSep :: char where "smartColumnSep = sep_at"

text \<open>\<open>strings.Contains(s, sep)\<close> for a one-byte separator.\<close>

definition strings_Contains :: "string \<Rightarrow> char \<Rightarrow> bool" where
  "strings_Contains s c = (c \<in> set s)"

text \<open>
  \<open>strings.Split(s, sep)\<close> for a one-byte separator: the pieces between the
  separators, one more than there are separators; the empty string gives one empty piece.
\<close>

fun strings_Split :: "string \<Rightarrow> char \<Rightarrow> string list" where
  "strings_Split [] c = [[]]"
| "strings_Split (x # xs) c =
     (if x = c then [] # strings_Split xs c
      else (case strings_Split xs c of
              [] \<Rightarrow> [[x]]
            | p # ps \<Rightarrow> (x # p) # ps))"

text \<open>
  \<open>strings.Cut(s, sep)\<close>: the text before and after the first separator and whether
  there is one; without a separator the result is \<open>(s, "", false)\<close>.
\<close>

fun strings_Cut :: "string \<Rightarrow> char \<Rightarrow> string \<times> string \<times> bool" where
  "strings_Cut [] c = ([], [], False)"
| "strings_Cut (x # xs) c =
     (if x = c then ([], xs, True)
      else (case strings_Cut xs c of (b, a, found) \<Rightarrow> (x # b, a, found)))"

text \<open>\<open>strings.TrimSpace\<close>, on the ASCII white space (tab, LF, VT, FF, CR, space).\<close>

definition isSpace :: "char \<Rightarrow> bool" where
  "isSpace c = (c \<in> set [CHR 0x09, CHR 0x0A, CHR 0x0B, CHR 0x0C, CHR 0x0D, CHR '' ''])"

definition strings_TrimSpace :: "string \<Rightarrow> string" where
  "strings_TrimSpace s = rev (dropWhile isSpace (rev (dropWhile isSpace s)))"

definition toLowerByte :: "char \<Rightarrow> char" where
  "toLowerByte c =
     (let n = (of_char c :: nat) in if 65 \<le> n \<and> n \<le> 90 then char_of (n + 32) else c)"

definition toUpperByte :: "char \<Rightarrow> char" where
  "toUpperByte c =
     (let n = (of_char c :: nat) in if 97 \<le> n \<and> n \<le> 122 then char_of (n - 32) else c)"

definition strings_ToLower :: "string \<Rightarrow> string" where
  "strings_ToLower s = map toLowerByte s"

text \<open>\<open>strings.Join\<close>, as \<open>fmt\<close> prints a slice of strings with \<open>%s\<close>: \<open>[a b]\<close>.\<close>

fun strings_Join :: "string list \<Rightarrow> string \<Rightarrow> string" where
  "strings_Join [] sep = []"
| "strings_Join [x] sep = x"
| "strings_Join (x # y # ys) sep = x @ sep @ strings_Join (y # ys) sep"

definition fmtSlice :: "string list \<Rightarrow> string" where
  "fmtSlice xs = ''['' @ strings_Join xs '' '' @ '']''"

section \<open>Errors\<close>

text \<open>
  \<open>errors.New(msg)\<close> and \<open>fmt.Errorf("%w...", err, ...)\<close>: an error is a message, and a
  wrapping error also holds the error it wraps. \<open>errorsIs\<close> is \<open>errors.Is\<close>: it walks
  the chain of wrapped errors.
\<close>

datatype error = ErrorsNew string | Errorf string error

fun errorMsg :: "error \<Rightarrow> string" where
  "errorMsg (ErrorsNew m) = m"
| "errorMsg (Errorf m w) = m"

fun errorsIs :: "error \<Rightarrow> error \<Rightarrow> bool" where
  "errorsIs (ErrorsNew m) target = (ErrorsNew m = target)"
| "errorsIs (Errorf m w) target = (Errorf m w = target \<or> errorsIs w target)"

text \<open>\<open>fmt.Errorf("%w" + rest, wrapped)\<close>, with \<open>rest\<close> already formatted.\<close>

definition wrapf :: "error \<Rightarrow> string \<Rightarrow> error" where
  "wrapf w rest = Errorf (errorMsg w @ rest) w"

definition errBadArgument :: error where
  "errBadArgument = ErrorsNew ''bad argument''"

definition errInvalidSmartColumn :: error where
  "errInvalidSmartColumn = wrapf errBadArgument '': invalid <smart-column>''"

section \<open>The data model\<close>

record column =
  Name :: string
  Type :: string
  Constraint :: string
  ID :: bool

text \<open>
  A parse function returns \<open>(column, error)\<close>: the model returns \<open>Inr\<close> of the column,
  or \<open>Inl\<close> of the error where the source returns the zero column with an error.
\<close>

type_synonym outputMode = "8 word"

definition outputSchema :: outputMode where "outputSchema = push_bit 0 1"
definition outputQueries :: outputMode where "outputQueries = push_bit 1 1"
definition outputAll :: outputMode where "outputAll = outputSchema OR outputQueries"

text \<open>The command-line flags, global variables of the source, read through pointers.\<close>

record flags =
  noExistsClauseFlag :: bool
  idColumnFlag :: string
  orderByFlag :: string
  noReturningClauseFlag :: bool
  onlyFlag :: string

text \<open>The defaults the flags are declared with.\<close>

definition defaultFlags :: flags where
  "defaultFlags = \<lparr>noExistsClauseFlag = False, idColumnFlag = ''id'', orderByFlag = [],
     noReturningClauseFlag = False, onlyFlag = []\<rparr>"

text \<open>\<open>IDColumn\<close> is a pointer in the source, \<open>nil\<close> until an identifier column is seen.\<close>

record scaffoldCommandArgs =
  Table :: string
  SingularEntity :: string
  PluralEntity :: string
  IDColumn :: "column option"
  Columns :: "column list"
  NonIDColumns :: "column list"
  LongestName :: int
  LongestType :: int
  NoExistsClause :: bool
  OrderBy :: string
  NoReturningClause :: bool
  Output :: outputMode

section \<open>The column parser\<close>

text \<open>
  The state of the tag loop of \<open>parseSmartColumnDefinition\<close>: the variables
  \<open>colType\<close>, \<open>id\<close>, \<open>null\<close> and \<open>unique\<close>.
\<close>

record tagState =
  colType :: string
  id_tag :: bool
  null_tag :: bool
  unique_tag :: bool

definition tagState_zero :: tagState where
  "tagState_zero = \<lparr>colType = [], id_tag = False, null_tag = False, unique_tag = False\<rparr>"

text \<open>The \<open>switch\<close> on one tag; \<open>None\<close> is the \<open>default\<close> branch.\<close>

definition applyTag :: "tagState \<Rightarrow> string \<Rightarrow> tagState option" where
  "applyTag st tag =
     (if tag = ''id'' then Some (st\<lparr>id_tag := True\<rparr>)
      else if tag = ''null'' then Some (st\<lparr>null_tag := True\<rparr>)
      else if tag = ''unique'' then Some (st\<lparr>unique_tag := True\<rparr>)
      else if tag = ''float'' then Some (st\<lparr>colType := ''FLOAT''\<rparr>)
      else if tag = ''double'' then Some (st\<lparr>colType := ''DOUBLE''\<rparr>)
      else if tag = ''datetime'' then Some (st\<lparr>colType := ''DATETIME''\<rparr>)
      else if tag = ''text'' then Some (st\<lparr>colType := ''TEXT''\<rparr>)
      else if tag = ''int'' then Some (st\<lparr>colType := ''INTEGER''\<rparr>)
      else if tag = ''blob'' then Some (st\<lparr>colType := ''BLOB''\<rparr>)
      else None)"

text \<open>The loop over the tags: it returns at the first unknown tag.\<close>

fun tagLoop :: "string \<Rightarrow> tagState \<Rightarrow> string list \<Rightarrow> error + tagState" where
  "tagLoop s st [] = Inr st"
| "tagLoop s st (tag # tags) =
     (case applyTag st tag of
        None \<Rightarrow> Inl (wrapf errInvalidSmartColumn
                       ('': '' @ quote @ s @ quote @ '', unknown <tag> #'' @ tag))
      | Some st' \<Rightarrow> tagLoop s st' tags)"

definition parseSmartColumnDefinition :: "string \<Rightarrow> error + column" where
  "parseSmartColumnDefinition s =
     (if s = ''@id'' then
        Inr \<lparr>Name = ''id'', Type = ''INTEGER'', Constraint = ''PRIMARY KEY'', ID = True\<rparr>
      else
        (case strings_Cut s smartColumnSep of (name, rest, _) \<Rightarrow>
           if name = [] then
             Inl (wrapf errInvalidSmartColumn
                    ('': '' @ quote @ s @ quote @ '', missing <name>''))
           else
             (case tagLoop s tagState_zero (strings_Split rest smartColumnSep) of
                Inl e \<Rightarrow> Inl e
              | Inr st \<Rightarrow>
                  if id_tag st then
                    (if unique_tag st \<or> null_tag st then
                       Inl (wrapf errInvalidSmartColumn
                              ('': '' @ quote @ s @ quote
                               @ '', cannot combine @id with @unique or @null''))
                     else
                       (let colType' = (if colType st = [] then ''INTEGER'' else colType st);
                            constraint = ''PRIMARY KEY'';
                            constraint' = (if colType' \<noteq> ''INTEGER''
                                           then ''NOT NULL '' @ constraint else constraint)
                        in Inr \<lparr>Name = name, Type = colType', Constraint = constraint',
                                ID = True\<rparr>))
                  else if colType st = [] then
                    Inl (wrapf errInvalidSmartColumn
                           ('': '' @ quote @ s @ quote @ '', missing column type''))
                  else
                    (let constraint = [];
                         constraint1 = (if \<not> null_tag st then constraint @ '' NOT NULL''
                                        else constraint);
                         constraint2 = (if unique_tag st then constraint1 @ '' UNIQUE''
                                        else constraint1)
                     in Inr \<lparr>Name = name, Type = colType st,
                             Constraint = strings_TrimSpace constraint2, ID = False\<rparr>))))"

text \<open>\<open>parts[0]\<close>, \<open>parts[1]\<close> and \<open>parts[2]\<close> are read only after the length check.\<close>

definition parsePlainColumnDefinition :: "flags \<Rightarrow> string \<Rightarrow> error + column" where
  "parsePlainColumnDefinition fl s =
     (let parts = strings_Split s sep_colon in
      if length parts < 2 \<or> length parts > 3 \<or> parts ! 0 = [] then
        Inl (wrapf errBadArgument
               ('': invalid <plain-column>: '' @ quote @ s @ quote
                @ '', expected '' @ quote @ ''<name>:<type>[:<constraint>]'' @ quote))
      else
        (let col = \<lparr>Name = parts ! 0, Type = parts ! 1, Constraint = [],
                    ID = (strings_ToLower (parts ! 0) = idColumnFlag fl)\<rparr>
         in if length parts = 3 then Inr (col\<lparr>Constraint := parts ! 2\<rparr>) else Inr col))"

definition parseColumnDefinition :: "flags \<Rightarrow> string \<Rightarrow> error + column" where
  "parseColumnDefinition fl s =
     (let plainColumn = strings_Contains s plainColumnSep;
          smartColumn = strings_Contains s smartColumnSep
      in if plainColumn \<and> smartColumn then
           Inl (wrapf errBadArgument
                  ('': invalid <column>: '' @ quote @ s @ quote
                   @ '' contains both plain and smart separators''))
         else if plainColumn then parsePlainColumnDefinition fl s
         else if smartColumn then parseSmartColumnDefinition s
         else
           Inl (wrapf errBadArgument
                  ('': invalid <column>: '' @ quote @ s @ quote
                   @ '', expected <smart-column> or <plain-column>'')))"

section \<open>Entity names\<close>

text \<open>
  A Go function that can panic returns an \<open>option\<close>: \<open>None\<close> is the run-time panic.
  \<open>capitalize\<close> writes to \<open>r[0]\<close>, which panics (index out of range) when \<open>s\<close> has no
  rune, that is when \<open>s\<close> is empty.
\<close>

definition capitalize :: "string \<Rightarrow> string option" where
  "capitalize s = (case s of [] \<Rightarrow> None | c # cs \<Rightarrow> Some (toUpperByte c # cs))"

text \<open>The loop of \<open>upperCamelCase\<close> over the parts, writing to the builder \<open>b\<close>.\<close>

fun upperCamelCase_loop :: "string \<Rightarrow> string list \<Rightarrow> string option" where
  "upperCamelCase_loop b [] = Some b"
| "upperCamelCase_loop b (p # ps) =
     (case capitalize p of
        None \<Rightarrow> None
      | Some q \<Rightarrow> upperCamelCase_loop (b @ q) ps)"

definition upperCamelCase :: "string \<Rightarrow> string option" where
  "upperCamelCase s =
     (let parts = strings_Split s sep_underscore in
      if length parts = 1 then capitalize s
      else upperCamelCase_loop [] parts)"

section \<open>Parsing the arguments\<close>

text \<open>The loop of \<open>parseScaffoldCommandArgs\<close> over \<open>args[1:]\<close>.\<close>

fun columnLoop :: "flags \<Rightarrow> scaffoldCommandArgs \<Rightarrow> string list \<Rightarrow> error + scaffoldCommandArgs"
  where
  "columnLoop fl sca [] = Inr sca"
| "columnLoop fl sca (arg # rest) =
     (case parseColumnDefinition fl arg of
        Inl err \<Rightarrow> Inl err
      | Inr col \<Rightarrow>
          (let sca1 = (if int (length (Name col)) > LongestName sca
                       then sca\<lparr>LongestName := int (length (Name col))\<rparr> else sca);
               sca2 = (if int (length (Type col)) > LongestType sca1
                       then sca1\<lparr>LongestType := int (length (Type col))\<rparr> else sca1);
               sca3 = sca2\<lparr>Columns := Columns sca2 @ [col]\<rparr>;
               sca4 = (if ID col then sca3\<lparr>IDColumn := Some col\<rparr>
                       else sca3\<lparr>NonIDColumns := NonIDColumns sca3 @ [col]\<rparr>)
           in columnLoop fl sca4 rest))"

text \<open>
  \<open>parseScaffoldCommandArgs\<close>: \<open>None\<close> is a panic, \<open>Some (Inl err)\<close> the return of an
  error, \<open>Some (Inr sca)\<close> the return of the arguments.
\<close>

definition parseScaffoldCommandArgs ::
  "flags \<Rightarrow> string list \<Rightarrow> (error + scaffoldCommandArgs) option" where
  "parseScaffoldCommandArgs fl args =
     (if length args = 0 then
        Some (Inl (wrapf errBadArgument '': missing <name> and <column>''))
      else
        (let tableParts = strings_Split (args ! 0) sep_slash in
         if length tableParts \<noteq> 2 \<or> length (tableParts ! 0) = 0
            \<or> length (tableParts ! 1) = 0 then
           Some (Inl (wrapf errBadArgument
                        ('': invalid <name>: '' @ quote @ fmtSlice tableParts @ quote
                         @ '', expected '' @ quote @ ''<singular>/<plural>'' @ quote)))
         else
           (case upperCamelCase (tableParts ! 0) of
              None \<Rightarrow> None
            | Some singular \<Rightarrow>
                (case upperCamelCase (tableParts ! 1) of
                   None \<Rightarrow> None
                 | Some plural \<Rightarrow>
                     (let sca = \<lparr>Table = tableParts ! 1, SingularEntity = singular,
                                 PluralEntity = plural, IDColumn = None, Columns = [],
                                 NonIDColumns = [], LongestName = 0, LongestType = 0,
                                 NoExistsClause = noExistsClauseFlag fl,
                                 OrderBy = orderByFlag fl,
                                 NoReturningClause = noReturningClauseFlag fl,
                                 Output = 0\<rparr>
                      in if onlyFlag fl = ''schema'' then
                           Some (columnLoop fl (sca\<lparr>Output := Output sca OR outputSchema\<rparr>)
                                   (tl args))
                         else if onlyFlag fl = ''queries'' then
                           Some (columnLoop fl (sca\<lparr>Output := Output sca OR outputQueries\<rparr>)
                                   (tl args))
                         else if onlyFlag fl = [] then
                           Some (columnLoop fl (sca\<lparr>Output := Output sca OR outputAll\<rparr>)
                                   (tl args))
                         else
                           Some (Inl (wrapf errBadArgument
                                        ('': '' @ quote @ ''-only '' @ onlyFlag fl @ quote
                                         @ '', expected '' @ quote @ ''schema'' @ quote
                                         @ '' or '' @ quote @ ''queries'' @ quote))))))))"

section \<open>The statement formatter\<close>

text \<open>
  Every \<open>write\<close> function appends to the writer \<open>w\<close>, a \<open>strings.Builder\<close>: it takes
  the text written so far and returns the text after its writes. The functions that read
  \<open>args.IDColumn.Name\<close> panic on a \<open>nil\<close> pointer: they return an \<open>option\<close>.
\<close>

text \<open>\<open>for i := 0; i < n; i++ { fmt.Fprintf(w, " ") }\<close>; it writes nothing when \<open>n \<le> 0\<close>.\<close>

definition writeSpaces :: "string \<Rightarrow> int \<Rightarrow> string" where
  "writeSpaces w n = w @ replicate (nat n) CHR '' ''"

text \<open>The loop of \<open>writeSchema\<close> over the columns, \<open>ci\<close> the index of the next one.\<close>

fun writeSchema_loop :: "string \<Rightarrow> scaffoldCommandArgs \<Rightarrow> nat \<Rightarrow> column list \<Rightarrow> string" where
  "writeSchema_loop w args ci [] = w"
| "writeSchema_loop w args ci (col # cols) =
     (let w1 = w @ ''  '' @ Name col @ '' '';
          no = LongestName args - int (length (Name col));
          w2 = writeSpaces w1 no;
          w3 = w2 @ Type col;
          w4 = (if Constraint col \<noteq> [] then
                  (let to = LongestType args - int (length (Type col));
                       w' = writeSpaces w3 to
                   in w' @ '' '' @ Constraint col)
                else w3);
          w5 = (if int ci < int (length (Columns args)) - 1 then w4 @ '','' else w4);
          w6 = w5 @ newline
      in writeSchema_loop w6 args (Suc ci) cols)"

definition writeSchema :: "string \<Rightarrow> scaffoldCommandArgs \<Rightarrow> string" where
  "writeSchema w args =
     (let w1 = w @ ''CREATE TABLE '';
          w2 = (if \<not> NoExistsClause args then w1 @ ''IF NOT EXISTS '' else w1);
          w3 = w2 @ Table args;
          w4 = w3 @ '' ('' @ newline;
          w5 = writeSchema_loop w4 args 0 (Columns args)
      in w5 @ '');'')"

definition writeGetQuery :: "string \<Rightarrow> scaffoldCommandArgs \<Rightarrow> string option" where
  "writeGetQuery w args =
     (let w1 = w @ ''-- name: Get'' @ SingularEntity args @ '' :one'' @ newline;
          w2 = w1 @ ''SELECT * FROM '' @ Table args @ newline
      in case IDColumn args of
           None \<Rightarrow> None
         | Some idc \<Rightarrow> Some (w2 @ ''WHERE '' @ Name idc @ '' = ? LIMIT 1;''))"

definition writeListQuery :: "string \<Rightarrow> scaffoldCommandArgs \<Rightarrow> string" where
  "writeListQuery w args =
     (let w1 = w @ ''-- name: List'' @ PluralEntity args @ '' :many'' @ newline;
          w2 = w1 @ ''SELECT * FROM '' @ Table args
      in if OrderBy args = [] then w2 @ '';''
         else w2 @ newline @ ''ORDER BY '' @ OrderBy args @ '';'')"

text \<open>The two loops of \<open>writeCreateQuery\<close>: the column names, then the placeholders.\<close>

fun writeCreateQuery_names :: "string \<Rightarrow> scaffoldCommandArgs \<Rightarrow> nat \<Rightarrow> column list \<Rightarrow> string"
  where
  "writeCreateQuery_names w args i [] = w"
| "writeCreateQuery_names w args i (col # cols) =
     (let w1 = w @ Name col;
          w2 = (if int i = int (length (NonIDColumns args)) - 1 then w1 @ newline
                else w1 @ '', '')
      in writeCreateQuery_names w2 args (Suc i) cols)"

function writeCreateQuery_values :: "string \<Rightarrow> scaffoldCommandArgs \<Rightarrow> nat \<Rightarrow> string" where
  "writeCreateQuery_values w args i =
     (if i < length (NonIDColumns args) then
        writeCreateQuery_values
          (if int i < int (length (NonIDColumns args)) - 1 then w @ ''?, ''
           else w @ ''?'' @ newline)
          args (Suc i)
      else w)"
  by pat_completeness auto
termination
  by (relation "measure (\<lambda>(w, args, i). length (NonIDColumns args) - i)") auto

declare writeCreateQuery_values.simps [simp del]

definition writeCreateQuery :: "string \<Rightarrow> scaffoldCommandArgs \<Rightarrow> string" where
  "writeCreateQuery w args =
     (let w1 = w @ ''-- name: Create'' @ SingularEntity args @ '' :one'' @ newline;
          w2 = w1 @ ''INSERT INTO '' @ Table args @ '' ('' @ newline;
          w3 = w2 @ ''  '';
          w4 = writeCreateQuery_names w3 args 0 (NonIDColumns args);
          w5 = w4 @ '') VALUES ('' @ newline;
          w6 = w5 @ ''  '';
          w7 = writeCreateQuery_values w6 args 0;
          w8 = w7 @ '')'' @ newline
      in w8 @ ''RETURNING *;'')"

definition writeDeleteQuery :: "string \<Rightarrow> scaffoldCommandArgs \<Rightarrow> string option" where
  "writeDeleteQuery w args =
     (let w1 = w @ ''-- name: Delete'' @ SingularEntity args @ '' :exec'' @ newline;
          w2 = w1 @ ''DELETE FROM '' @ Table args @ newline
      in case IDColumn args of
           None \<Rightarrow> None
         | Some idc \<Rightarrow> Some (w2 @ ''WHERE '' @ Name idc @ '' = ?;''))"

text \<open>The loop of \<open>writeUpdateQuery\<close> over the columns that are set.\<close>

fun writeUpdateQuery_loop :: "string \<Rightarrow> scaffoldCommandArgs \<Rightarrow> nat \<Rightarrow> column list \<Rightarrow> string"
  where
  "writeUpdateQuery_loop w args i [] = w"
| "writeUpdateQuery_loop w args i (col # cols) =
     (let w1 = (if int i < int (length (NonIDColumns args)) - 1
                then w @ ''  '' @ Name col @ '' = ?,'' @ newline
                else w @ ''  '' @ Name col @ '' = ?'' @ newline)
      in writeUpdateQuery_loop w1 args (Suc i) cols)"

definition writeUpdateQuery :: "string \<Rightarrow> scaffoldCommandArgs \<Rightarrow> string option" where
  "writeUpdateQuery w args =
     (let mode = (if NoReturningClause args then '':exec'' else '':one'');
          w1 = w @ ''-- name: Update'' @ SingularEntity args @ '' '' @ mode @ newline;
          w2 = w1 @ ''UPDATE '' @ Table args @ newline;
          w3 = w2 @ ''SET'' @ newline;
          w4 = writeUpdateQuery_loop w3 args 0 (NonIDColumns args)
      in case IDColumn args of
           None \<Rightarrow> None
         | Some idc \<Rightarrow>
             (let w5 = w4 @ ''WHERE '' @ Name idc @ '' = ?''
              in if \<not> NoReturningClause args then Some (w5 @ newline @ ''RETURNING *;'')
                 else Some (w5 @ '';'')))"

text \<open>
  \<open>scaffoldCommand\<close> prints the builder and returns \<open>nil\<close>: the model returns the text
  printed, \<open>None\<close> when a write panics.
\<close>

definition scaffoldCommand :: "scaffoldCommandArgs \<Rightarrow> string option" where
  "scaffoldCommand args =
     (let b0 = [];
          b1 = (if Output args AND outputAll = outputAll then
                  b0 @ ''#############################################'' @ newline
                     @ ''# Add the following to your SQL schema file #'' @ newline
                     @ ''#############################################'' @ newline @ newline
                else b0);
          b2 = (if Output args AND outputSchema \<noteq> 0 then writeSchema b1 args @ newline @ newline
                else b1);
          b3 = (if Output args AND outputAll = outputAll then
                  b2 @ ''##############################################'' @ newline
                     @ ''# Add the following to your SQL queries file #'' @ newline
                     @ ''##############################################'' @ newline @ newline
                else b2)
      in if Output args AND outputQueries \<noteq> 0 then
           (case (if IDColumn args \<noteq> None
                  then map_option (\<lambda>w. w @ newline @ newline) (writeGetQuery b3 args)
                  else Some b3) of
              None \<Rightarrow> None
            | Some b4 \<Rightarrow>
                (let b5 = writeListQuery b4 args @ newline @ newline;
                     b6 = writeCreateQuery b5 args @ newline
                 in if IDColumn args \<noteq> None then
                      (case writeDeleteQuery (b6 @ newline) args of
                         None \<Rightarrow> None
                       | Some b7 \<Rightarrow>
                           (case writeUpdateQuery (b7 @ newline @ newline) args of
                              None \<Rightarrow> None
                            | Some b8 \<Rightarrow> Some (b8 @ newline @ newline)))
                    else Some b6))
         else Some b3)"

section \<open>Vocabulary of the specification\<close>

text \<open>
  The smart-form grammar \<open>[name]@tag(@tag)*\<close>: the column written with the name and
  the tags given.
\<close>

definition smartForm :: "string \<Rightarrow> string list \<Rightarrow> string" where
  "smartForm name tags = name @ concat (map (\<lambda>t. sep_at # t) tags)"

text \<open>The table of the tags: the SQL keyword a type tag stands for.\<close>

definition spec_typeOfTag :: "string \<Rightarrow> string option" where
  "spec_typeOfTag t =
     (if t = ''text'' then Some ''TEXT''
      else if t = ''int'' then Some ''INTEGER''
      else if t = ''float'' then Some ''FLOAT''
      else if t = ''double'' then Some ''DOUBLE''
      else if t = ''datetime'' then Some ''DATETIME''
      else if t = ''blob'' then Some ''BLOB''
      else None)"

definition spec_knownTag :: "string \<Rightarrow> bool" where
  "spec_knownTag t =
     (t \<in> set [''id'', ''null'', ''unique'', ''text'', ''int'', ''float'', ''double'',
                ''datetime'', ''blob''])"

text \<open>The SQL types the type tags of a tag list set, in order: the last one wins.\<close>

definition spec_types :: "string list \<Rightarrow> string list" where
  "spec_types tags = List.map_filter spec_typeOfTag tags"

text \<open>The plain form \<open>name:type\<close> and \<open>name:type:constraint\<close>.\<close>

definition plainForm2 :: "string \<Rightarrow> string \<Rightarrow> string" where
  "plainForm2 name ty = name @ sep_colon # ty"

definition plainForm3 :: "string \<Rightarrow> string \<Rightarrow> string \<Rightarrow> string" where
  "plainForm3 name ty con = name @ sep_colon # ty @ sep_colon # con"

text \<open>An error of the kind "bad argument": \<open>errors.Is(err, errBadArgument)\<close>.\<close>

definition isBadArgument :: "error + 'a \<Rightarrow> bool" where
  "isBadArgument r = (case r of Inl e \<Rightarrow> errorsIs e errBadArgument | Inr _ \<Rightarrow> False)"

text \<open>A raw definition that parses to an identifier column.\<close>

definition isIdentifierDefinition :: "flags \<Rightarrow> string \<Rightarrow> bool" where
  "isIdentifierDefinition fl arg =
     (case parseColumnDefinition fl arg of Inl _ \<Rightarrow> False | Inr col \<Rightarrow> ID col)"

text \<open>The first line of a query template: \<open>-- name: <verb><entity> <mode>\<close>.\<close>

definition queryLabel :: "string \<Rightarrow> string \<Rightarrow> string \<Rightarrow> string" where
  "queryLabel verb entity mode = ''-- name: '' @ verb @ entity @ '' '' @ mode @ newline"

text \<open>The text printed before the query templates: the banners and the schema.\<close>

definition beforeQueries :: "scaffoldCommandArgs \<Rightarrow> string" where
  "beforeQueries args =
     (if Output args AND outputAll = outputAll then
        ''#############################################'' @ newline
        @ ''# Add the following to your SQL schema file #'' @ newline
        @ ''#############################################'' @ newline @ newline
      else [])
     @ (if Output args AND outputSchema \<noteq> 0 then writeSchema [] args @ newline @ newline
        else [])
     @ (if Output args AND outputAll = outputAll then
          ''##############################################'' @ newline
          @ ''# Add the following to your SQL queries file #'' @ newline
          @ ''##############################################'' @ newline @ newline
        else [])"

section \<open>Facts about the library functions\<close>

lemma strings_Split_not_Nil: "strings_Split s c \<noteq> []"
  by (induction s) (auto split: list.splits)

lemma strings_Split_no_sep: "c \<notin> set s \<Longrightarrow> strings_Split s c = [s]"
  by (induction s) auto

lemma strings_Split_append_sep:
  "c \<notin> set a \<Longrightarrow> strings_Split (a @ c # b) c = a # strings_Split b c"
  by (induction a) auto

lemma length_strings_Split: "length (strings_Split s c) = Suc (count_list s c)"
  by (induction s) (auto split: list.splits simp: strings_Split_not_Nil)

lemma hd_strings_Split: "hd (strings_Split s c) = takeWhile (\<lambda>x. x \<noteq> c) s"
  by (induction s) (auto split: list.splits simp: strings_Split_not_Nil)

lemma strings_Split_tags:
  "c \<notin> set t \<Longrightarrow> \<forall>u\<in>set ts. c \<notin> set u \<Longrightarrow>
   strings_Split (t @ concat (map (\<lambda>u. c # u) ts)) c = t # ts"
proof (induction ts arbitrary: t)
  case Nil
  then show ?case by (simp add: strings_Split_no_sep)
next
  case (Cons u us)
  then show ?case by (simp add: strings_Split_append_sep)
qed

lemma strings_Cut_append_sep: "c \<notin> set a \<Longrightarrow> strings_Cut (a @ c # b) c = (a, b, True)"
  by (induction a) auto

lemma strings_Cut_no_sep: "c \<notin> set s \<Longrightarrow> strings_Cut s c = (s, [], False)"
  by (induction s) auto

section \<open>The tag loop\<close>

lemma spec_knownTag_no_at: "spec_knownTag t \<Longrightarrow> sep_at \<notin> set t"
  unfolding spec_knownTag_def sep_at_def by auto

lemma spec_knownTag_no_colon: "spec_knownTag t \<Longrightarrow> sep_colon \<notin> set t"
  unfolding spec_knownTag_def sep_colon_def by auto

lemma applyTag_unknown: "\<not> spec_knownTag t \<Longrightarrow> applyTag st t = None"
  by (simp add: spec_knownTag_def applyTag_def)

lemma applyTag_known:
  "spec_knownTag t \<Longrightarrow>
   applyTag st t =
     Some \<lparr>colType = (case spec_typeOfTag t of None \<Rightarrow> colType st | Some ty \<Rightarrow> ty),
           id_tag = (id_tag st \<or> t = ''id''),
           null_tag = (null_tag st \<or> t = ''null''),
           unique_tag = (unique_tag st \<or> t = ''unique'')\<rparr>"
  by (auto simp add: spec_knownTag_def spec_typeOfTag_def applyTag_def)

lemma spec_types_Nil: "spec_types [] = []"
  by (simp add: spec_types_def List.map_filter_simps)

lemma spec_types_Cons:
  "spec_types (t # ts) =
     (case spec_typeOfTag t of None \<Rightarrow> spec_types ts | Some ty \<Rightarrow> ty # spec_types ts)"
  by (simp add: spec_types_def List.map_filter_simps split: option.splits)

lemma tagLoop_known:
  "\<forall>t\<in>set tags. spec_knownTag t \<Longrightarrow>
   tagLoop s st tags =
     Inr \<lparr>colType = (if spec_types tags = [] then colType st else last (spec_types tags)),
          id_tag = (id_tag st \<or> ''id'' \<in> set tags),
          null_tag = (null_tag st \<or> ''null'' \<in> set tags),
          unique_tag = (unique_tag st \<or> ''unique'' \<in> set tags)\<rparr>"
proof (induction tags arbitrary: st)
  case Nil
  then show ?case by (simp add: spec_types_Nil)
next
  case (Cons t ts)
  have k: "spec_knownTag t" and ks: "\<forall>t\<in>set ts. spec_knownTag t"
    using Cons.prems by simp_all
  show ?case
    unfolding tagLoop.simps applyTag_known [OF k] option.case Cons.IH [OF ks]
    by (auto simp add: spec_types_Cons split: option.splits)
qed

lemma tagLoop_unknown:
  "\<not> (\<forall>t\<in>set tags. spec_knownTag t) \<Longrightarrow> isBadArgument (tagLoop s st tags)"
proof (induction tags arbitrary: st)
  case Nil
  then show ?case by simp
next
  case (Cons t ts)
  show ?case
  proof (cases "spec_knownTag t")
    case True
    then have "\<not> (\<forall>t\<in>set ts. spec_knownTag t)" using Cons.prems by simp
    from Cons.IH [OF this] show ?thesis
      by (simp add: applyTag_known [OF True])
  next
    case False
    then show ?thesis
      by (simp add: applyTag_unknown isBadArgument_def wrapf_def errInvalidSmartColumn_def
          errBadArgument_def)
  qed
qed

section \<open>The smart form\<close>

lemma smartForm_Cons:
  "smartForm name (t # ts) = name @ sep_at # (t @ concat (map (\<lambda>u. sep_at # u) ts))"
  by (simp add: smartForm_def)

lemma smartForm_not_id: "name \<noteq> [] \<Longrightarrow> sep_at \<notin> set name \<Longrightarrow> smartForm name tags \<noteq> ''@id''"
  by (cases name) (auto simp: sep_at_def smartForm_def)

lemma parseSmartColumnDefinition_core:
  assumes "name \<noteq> []" "s \<noteq> ''@id''"
   "strings_Cut s smartColumnSep = (name, rest, found)"
   "strings_Split rest smartColumnSep = tags"
   "tagLoop s tagState_zero tags =
     Inr \<lparr>colType = ty, id_tag = i, null_tag = n, unique_tag = u\<rparr>"
  shows "parseSmartColumnDefinition s =
     (if i then
        (if u \<or> n then
           Inl (wrapf errInvalidSmartColumn
                  ('': '' @ quote @ s @ quote
                   @ '', cannot combine @id with @unique or @null''))
         else Inr \<lparr>Name = name, Type = (if ty = [] then ''INTEGER'' else ty),
                   Constraint = (if (if ty = [] then ''INTEGER'' else ty) \<noteq> ''INTEGER''
                                 then ''NOT NULL PRIMARY KEY'' else ''PRIMARY KEY''),
                   ID = True\<rparr>)
      else if ty = [] then
        Inl (wrapf errInvalidSmartColumn
               ('': '' @ quote @ s @ quote @ '', missing column type''))
      else Inr \<lparr>Name = name, Type = ty,
                Constraint = strings_TrimSpace
                  ((if n then [] else '' NOT NULL'') @ (if u then '' UNIQUE'' else [])),
                ID = False\<rparr>)"
  unfolding parseSmartColumnDefinition_def assms(3) prod.case assms(4) assms(5) sum.case
  using assms(1,2) by (simp add: Let_def)

lemma smartForm_cut_split:
  assumes "sep_at \<notin> set name" "tags \<noteq> []" "\<forall>t\<in>set tags. sep_at \<notin> set t"
  shows "\<exists>rest. strings_Cut (smartForm name tags) smartColumnSep = (name, rest, True)
           \<and> strings_Split rest smartColumnSep = tags"
proof -
  obtain t ts where tts: "tags = t # ts" using assms(2) by (cases tags) auto
  have n1: "sep_at \<notin> set t" using assms(3) by (simp add: tts)
  have n2: "\<forall>u\<in>set ts. sep_at \<notin> set u" using assms(3) by (simp add: tts)
  have "strings_Cut (smartForm name (t # ts)) sep_at
          = (name, t @ concat (map (\<lambda>u. sep_at # u) ts), True)"
    unfolding smartForm_Cons by (rule strings_Cut_append_sep [OF assms(1)])
  moreover have "strings_Split (t @ concat (map (\<lambda>u. sep_at # u) ts)) sep_at = t # ts"
    by (rule strings_Split_tags [OF n1 n2])
  ultimately show ?thesis by (simp add: tts smartColumnSep_def)
qed

lemma spec_types_nonempty: "ty \<in> set (spec_types tags) \<Longrightarrow> ty \<noteq> []"
proof (induction tags)
  case Nil
  then show ?case by (simp add: spec_types_Nil)
next
  case (Cons t ts)
  then show ?case
    by (auto simp add: spec_types_Cons spec_typeOfTag_def split: option.splits if_splits)
qed

lemma last_spec_types_nonempty: "spec_types tags \<noteq> [] \<Longrightarrow> last (spec_types tags) \<noteq> []"
  using spec_types_nonempty [OF last_in_set] by blast

lemma parseSmart_tags:
  assumes name: "name \<noteq> []" "sep_at \<notin> set name"
    and tags: "tags \<noteq> []" "\<forall>t\<in>set tags. spec_knownTag t"
  shows "parseSmartColumnDefinition (smartForm name tags) =
     (if ''id'' \<in> set tags then
        (if ''unique'' \<in> set tags \<or> ''null'' \<in> set tags then
           Inl (wrapf errInvalidSmartColumn
                  ('': '' @ quote @ smartForm name tags @ quote
                   @ '', cannot combine @id with @unique or @null''))
         else Inr \<lparr>Name = name,
                   Type = (if spec_types tags = [] then ''INTEGER'' else last (spec_types tags)),
                   Constraint = (if (if spec_types tags = [] then ''INTEGER''
                                     else last (spec_types tags)) \<noteq> ''INTEGER''
                                 then ''NOT NULL PRIMARY KEY'' else ''PRIMARY KEY''),
                   ID = True\<rparr>)
      else if spec_types tags = [] then
        Inl (wrapf errInvalidSmartColumn
               ('': '' @ quote @ smartForm name tags @ quote @ '', missing column type''))
      else Inr \<lparr>Name = name, Type = last (spec_types tags),
                Constraint = strings_TrimSpace
                  ((if ''null'' \<in> set tags then [] else '' NOT NULL'')
                   @ (if ''unique'' \<in> set tags then '' UNIQUE'' else [])),
                ID = False\<rparr>)"
proof -
  have "\<forall>t\<in>set tags. sep_at \<notin> set t"
    using tags(2) spec_knownTag_no_at by blast
  from smartForm_cut_split [OF name(2) tags(1) this]
  obtain rest where c: "strings_Cut (smartForm name tags) smartColumnSep = (name, rest, True)"
    and sp: "strings_Split rest smartColumnSep = tags" by blast
  have tl: "tagLoop (smartForm name tags) tagState_zero tags =
     Inr \<lparr>colType = (if spec_types tags = [] then [] else last (spec_types tags)),
          id_tag = (''id'' \<in> set tags),
          null_tag = (''null'' \<in> set tags),
          unique_tag = (''unique'' \<in> set tags)\<rparr>"
    unfolding tagLoop_known [OF tags(2)] by (simp add: tagState_zero_def)
  show ?thesis
    unfolding parseSmartColumnDefinition_core
      [OF name(1) smartForm_not_id [OF name] c sp tl]
    using last_spec_types_nonempty [of tags] by simp
qed

lemma set_smartForm:
  "set (smartForm name tags) =
     set name \<union> (if tags = [] then {} else {sep_at}) \<union> \<Union> (set ` set tags)"
  by (auto simp add: smartForm_def)

lemma parseColumnDefinition_smart:
  assumes "sep_colon \<notin> set name" "tags \<noteq> []" "\<forall>t\<in>set tags. sep_colon \<notin> set t"
  shows "parseColumnDefinition fl (smartForm name tags)
           = parseSmartColumnDefinition (smartForm name tags)"
proof -
  have "sep_colon \<notin> set (smartForm name tags)"
    using assms by (auto simp add: set_smartForm sep_colon_def sep_at_def)
  moreover have "sep_at \<in> set (smartForm name tags)"
    using assms(2) by (simp add: set_smartForm)
  ultimately show ?thesis
    by (simp add: parseColumnDefinition_def strings_Contains_def plainColumnSep_def
        smartColumnSep_def)
qed

lemma strings_TrimSpace_constraints:
  "strings_TrimSpace [] = []"
  "strings_TrimSpace '' NOT NULL'' = ''NOT NULL''"
  "strings_TrimSpace '' UNIQUE'' = ''UNIQUE''"
  "strings_TrimSpace ('' NOT NULL'' @ '' UNIQUE'') = ''NOT NULL UNIQUE''"
  by (simp_all add: strings_TrimSpace_def isSpace_def)

lemma errInvalidSmartColumn_bad: "errorsIs (wrapf errInvalidSmartColumn m) errBadArgument"
  by (simp add: wrapf_def errInvalidSmartColumn_def errBadArgument_def)

lemma errBadArgument_bad: "errorsIs (wrapf errBadArgument m) errBadArgument"
  by (simp add: wrapf_def errBadArgument_def)

text \<open>
  Claim C3. A smart column with the \<open>id\<close> tag and neither \<open>unique\<close> nor \<open>null\<close>.
  The token \<open>@id\<close> is the column \<open>id\<close> of type \<open>INTEGER\<close> with the constraint
  \<open>PRIMARY KEY\<close>, an identifier. Any other such column, with a name and known tags, is
  an identifier column of that name; its type is the one the last type tag sets and
  \<open>INTEGER\<close> without a type tag; its constraint is \<open>PRIMARY KEY\<close>, with \<open>NOT NULL\<close> in
  front exactly when the type is not \<open>INTEGER\<close>. With \<open>unique\<close> or \<open>null\<close> beside \<open>id\<close>
  the parser returns a bad-argument error.
\<close>

theorem C3_smart_identifier_column:
  "parseColumnDefinition fl ''@id''
     = Inr \<lparr>Name = ''id'', Type = ''INTEGER'', Constraint = ''PRIMARY KEY'', ID = True\<rparr>
   \<and> (name \<noteq> [] \<and> sep_at \<notin> set name \<and> sep_colon \<notin> set name
        \<and> (\<forall>t\<in>set tags. spec_knownTag t) \<and> ''id'' \<in> set tags
        \<and> ''unique'' \<notin> set tags \<and> ''null'' \<notin> set tags
      \<longrightarrow> parseColumnDefinition fl (smartForm name tags)
            = Inr \<lparr>Name = name,
                   Type = (if spec_types tags = [] then ''INTEGER''
                           else last (spec_types tags)),
                   Constraint = (if (if spec_types tags = [] then ''INTEGER''
                                     else last (spec_types tags)) = ''INTEGER''
                                 then ''PRIMARY KEY'' else ''NOT NULL PRIMARY KEY''),
                   ID = True\<rparr>)
   \<and> (name \<noteq> [] \<and> sep_at \<notin> set name \<and> sep_colon \<notin> set name
        \<and> (\<forall>t\<in>set tags. spec_knownTag t) \<and> ''id'' \<in> set tags
        \<and> (''unique'' \<in> set tags \<or> ''null'' \<in> set tags)
      \<longrightarrow> isBadArgument (parseColumnDefinition fl (smartForm name tags)))"
proof (intro conjI impI)
  show "parseColumnDefinition fl ''@id''
     = Inr \<lparr>Name = ''id'', Type = ''INTEGER'', Constraint = ''PRIMARY KEY'', ID = True\<rparr>"
    by (simp add: parseColumnDefinition_def strings_Contains_def plainColumnSep_def
        smartColumnSep_def sep_colon_def sep_at_def parseSmartColumnDefinition_def)
next
  assume a: "name \<noteq> [] \<and> sep_at \<notin> set name \<and> sep_colon \<notin> set name
        \<and> (\<forall>t\<in>set tags. spec_knownTag t) \<and> ''id'' \<in> set tags
        \<and> ''unique'' \<notin> set tags \<and> ''null'' \<notin> set tags"
  then have ne: "tags \<noteq> []" by auto
  have nc: "\<forall>t\<in>set tags. sep_colon \<notin> set t"
    using a spec_knownTag_no_colon by blast
  have k: "\<forall>t\<in>set tags. spec_knownTag t" using a by blast
  have n1: "name \<noteq> []" and n2: "sep_at \<notin> set name" and n3: "sep_colon \<notin> set name"
    using a by blast+
  show "parseColumnDefinition fl (smartForm name tags)
            = Inr \<lparr>Name = name,
                   Type = (if spec_types tags = [] then ''INTEGER''
                           else last (spec_types tags)),
                   Constraint = (if (if spec_types tags = [] then ''INTEGER''
                                     else last (spec_types tags)) = ''INTEGER''
                                 then ''PRIMARY KEY'' else ''NOT NULL PRIMARY KEY''),
                   ID = True\<rparr>"
    unfolding parseColumnDefinition_smart [OF n3 ne nc] parseSmart_tags [OF n1 n2 ne k]
    using a by simp
next
  assume a: "name \<noteq> [] \<and> sep_at \<notin> set name \<and> sep_colon \<notin> set name
        \<and> (\<forall>t\<in>set tags. spec_knownTag t) \<and> ''id'' \<in> set tags
        \<and> (''unique'' \<in> set tags \<or> ''null'' \<in> set tags)"
  then have ne: "tags \<noteq> []" by auto
  have nc: "\<forall>t\<in>set tags. sep_colon \<notin> set t"
    using a spec_knownTag_no_colon by blast
  have k: "\<forall>t\<in>set tags. spec_knownTag t" using a by blast
  have n1: "name \<noteq> []" and n2: "sep_at \<notin> set name" and n3: "sep_colon \<notin> set name"
    using a by blast+
  show "isBadArgument (parseColumnDefinition fl (smartForm name tags))"
    unfolding parseColumnDefinition_smart [OF n3 ne nc] parseSmart_tags [OF n1 n2 ne k]
    using a by (simp add: isBadArgument_def errInvalidSmartColumn_bad)
qed

theorem C3_smart_identifier_column_witness:
  "parseColumnDefinition defaultFlags ''pk@text@id''
     = Inr \<lparr>Name = ''pk'', Type = ''TEXT'', Constraint = ''NOT NULL PRIMARY KEY'', ID = True\<rparr>
   \<and> parseColumnDefinition defaultFlags ''col_id@id''
     = Inr \<lparr>Name = ''col_id'', Type = ''INTEGER'', Constraint = ''PRIMARY KEY'', ID = True\<rparr>
   \<and> isBadArgument (parseColumnDefinition defaultFlags ''col@id@unique'')"
  using C3_smart_identifier_column [of defaultFlags "''pk''" "[''text'', ''id'']"]
    C3_smart_identifier_column [of defaultFlags "''col_id''" "[''id'']"]
    C3_smart_identifier_column [of defaultFlags "''col''" "[''id'', ''unique'']"]
  by (simp add: smartForm_def sep_at_def sep_colon_def spec_knownTag_def spec_types_def
      List.map_filter_simps spec_typeOfTag_def)

lemma parseSmartColumnDefinition_tag_error:
  assumes "s \<noteq> ''@id''"
   "strings_Cut s smartColumnSep = (name, rest, found)"
   "isBadArgument (tagLoop s tagState_zero (strings_Split rest smartColumnSep))"
  shows "isBadArgument (parseSmartColumnDefinition s)"
  using assms(1,3)
  unfolding parseSmartColumnDefinition_def assms(2) prod.case
  by (auto simp add: isBadArgument_def errInvalidSmartColumn_bad split: sum.splits)

lemma smartForm_empty_name_id:
  assumes "\<forall>t\<in>set tags. sep_at \<notin> set t" "smartForm [] tags = ''@id''"
  shows "''id'' \<in> set tags"
proof (cases tags)
  case Nil
  then show ?thesis using assms(2) by (simp add: smartForm_def)
next
  case (Cons t ts)
  have "t @ concat (map (\<lambda>u. sep_at # u) ts) = ''id''"
    using assms(2) unfolding Cons smartForm_Cons by simp
  moreover have "sep_at \<notin> set ''id''" by (simp add: sep_at_def)
  moreover have "ts \<noteq> [] \<Longrightarrow> sep_at \<in> set (t @ concat (map (\<lambda>u. sep_at # u) ts))"
    by (cases ts) auto
  ultimately have "ts = []" by metis
  with \<open>t @ concat (map (\<lambda>u. sep_at # u) ts) = ''id''\<close> show ?thesis
    by (simp add: Cons)
qed

lemma parseSmart_no_type:
  assumes at: "sep_at \<notin> set name" "tags \<noteq> []" "\<forall>t\<in>set tags. sep_at \<notin> set t"
    and noid: "''id'' \<notin> set tags" and noty: "spec_types tags = []"
  shows "isBadArgument (parseSmartColumnDefinition (smartForm name tags))"
proof -
  from smartForm_cut_split [OF at]
  obtain rest where c: "strings_Cut (smartForm name tags) smartColumnSep = (name, rest, True)"
    and sp: "strings_Split rest smartColumnSep = tags" by blast
  show ?thesis
  proof (cases "name = []")
    case True
    have "smartForm name tags \<noteq> ''@id''"
      using smartForm_empty_name_id [OF at(3)] noid True by blast
    then show ?thesis
      unfolding parseSmartColumnDefinition_def c prod.case
      by (simp add: True isBadArgument_def errInvalidSmartColumn_bad)
  next
    case False
    note ne = smartForm_not_id [OF False at(1)]
    show ?thesis
    proof (cases "\<forall>t\<in>set tags. spec_knownTag t")
      case True
      show ?thesis
        unfolding parseSmart_tags [OF False at(1) at(2) True]
        using noid noty by (simp add: isBadArgument_def errInvalidSmartColumn_bad)
    next
      case unk: False
      show ?thesis
        by (rule parseSmartColumnDefinition_tag_error [OF ne c])
          (simp add: sp tagLoop_unknown [OF unk])
    qed
  qed
qed

text \<open>
  Claim C4. A smart column without the \<open>id\<close> tag. Without a type tag the parser returns
  a bad-argument error, whatever the name and the other tags are. With a name, known tags
  and a type tag it returns the column of that name, not an identifier, with the type of
  the last type tag and the constraint \<open>NOT NULL\<close> unless \<open>null\<close> is a tag, then
  \<open>UNIQUE\<close> when \<open>unique\<close> is a tag, joined by one space, with no space around.
\<close>

theorem C4_smart_column_without_id:
  "(sep_at \<notin> set name \<and> sep_colon \<notin> set name \<and> tags \<noteq> []
      \<and> (\<forall>t\<in>set tags. sep_at \<notin> set t \<and> sep_colon \<notin> set t)
      \<and> ''id'' \<notin> set tags \<and> spec_types tags = []
    \<longrightarrow> isBadArgument (parseColumnDefinition fl (smartForm name tags)))
   \<and> (name \<noteq> [] \<and> sep_at \<notin> set name \<and> sep_colon \<notin> set name
        \<and> (\<forall>t\<in>set tags. spec_knownTag t) \<and> ''id'' \<notin> set tags \<and> spec_types tags \<noteq> []
      \<longrightarrow> parseColumnDefinition fl (smartForm name tags)
            = Inr \<lparr>Name = name, Type = last (spec_types tags),
                   Constraint =
                     (if ''null'' \<in> set tags
                      then (if ''unique'' \<in> set tags then ''UNIQUE'' else [])
                      else (if ''unique'' \<in> set tags then ''NOT NULL UNIQUE''
                            else ''NOT NULL'')),
                   ID = False\<rparr>)"
proof (intro conjI impI)
  assume a: "sep_at \<notin> set name \<and> sep_colon \<notin> set name \<and> tags \<noteq> []
      \<and> (\<forall>t\<in>set tags. sep_at \<notin> set t \<and> sep_colon \<notin> set t)
      \<and> ''id'' \<notin> set tags \<and> spec_types tags = []"
  have n2: "sep_at \<notin> set name" and n3: "sep_colon \<notin> set name" and ne: "tags \<noteq> []"
    and na: "\<forall>t\<in>set tags. sep_at \<notin> set t" and nc: "\<forall>t\<in>set tags. sep_colon \<notin> set t"
    and noid: "''id'' \<notin> set tags" and noty: "spec_types tags = []"
    using a by blast+
  show "isBadArgument (parseColumnDefinition fl (smartForm name tags))"
    unfolding parseColumnDefinition_smart [OF n3 ne nc]
    by (rule parseSmart_no_type [OF n2 ne na noid noty])
next
  assume a: "name \<noteq> [] \<and> sep_at \<notin> set name \<and> sep_colon \<notin> set name
        \<and> (\<forall>t\<in>set tags. spec_knownTag t) \<and> ''id'' \<notin> set tags \<and> spec_types tags \<noteq> []"
  have n1: "name \<noteq> []" and n2: "sep_at \<notin> set name" and n3: "sep_colon \<notin> set name"
    and k: "\<forall>t\<in>set tags. spec_knownTag t"
    and noid: "''id'' \<notin> set tags" and ty: "spec_types tags \<noteq> []"
    using a by blast+
  have ne: "tags \<noteq> []" using ty by (auto simp add: spec_types_Nil)
  have nc: "\<forall>t\<in>set tags. sep_colon \<notin> set t"
    using k spec_knownTag_no_colon by blast
  show "parseColumnDefinition fl (smartForm name tags)
            = Inr \<lparr>Name = name, Type = last (spec_types tags),
                   Constraint =
                     (if ''null'' \<in> set tags
                      then (if ''unique'' \<in> set tags then ''UNIQUE'' else [])
                      else (if ''unique'' \<in> set tags then ''NOT NULL UNIQUE''
                            else ''NOT NULL'')),
                   ID = False\<rparr>"
    unfolding parseColumnDefinition_smart [OF n3 ne nc] parseSmart_tags [OF n1 n2 ne k]
    using noid ty strings_TrimSpace_constraints by simp
qed

theorem C4_smart_column_without_id_witness:
  "isBadArgument (parseColumnDefinition defaultFlags ''col@unique'')
   \<and> parseColumnDefinition defaultFlags ''col@text''
     = Inr \<lparr>Name = ''col'', Type = ''TEXT'', Constraint = ''NOT NULL'', ID = False\<rparr>
   \<and> parseColumnDefinition defaultFlags ''col@text@unique''
     = Inr \<lparr>Name = ''col'', Type = ''TEXT'', Constraint = ''NOT NULL UNIQUE'', ID = False\<rparr>
   \<and> parseColumnDefinition defaultFlags ''col@text@null''
     = Inr \<lparr>Name = ''col'', Type = ''TEXT'', Constraint = [], ID = False\<rparr>"
  using C4_smart_column_without_id [of "''col''" "[''unique'']" defaultFlags]
    C4_smart_column_without_id [of "''col''" "[''text'']" defaultFlags]
    C4_smart_column_without_id [of "''col''" "[''text'', ''unique'']" defaultFlags]
    C4_smart_column_without_id [of "''col''" "[''text'', ''null'']" defaultFlags]
  by (simp add: smartForm_def sep_at_def sep_colon_def spec_knownTag_def spec_types_def
      List.map_filter_simps spec_typeOfTag_def)

section \<open>The plain form\<close>

lemma parseColumnDefinition_plain:
  "sep_colon \<in> set s \<Longrightarrow> sep_at \<notin> set s \<Longrightarrow>
   parseColumnDefinition fl s = parsePlainColumnDefinition fl s"
  by (simp add: parseColumnDefinition_def strings_Contains_def plainColumnSep_def
      smartColumnSep_def)

lemma parsePlainColumnDefinition_two:
  assumes "name \<noteq> []" "sep_colon \<notin> set name" "sep_colon \<notin> set ty"
  shows "parsePlainColumnDefinition fl (plainForm2 name ty)
           = Inr \<lparr>Name = name, Type = ty, Constraint = [],
                  ID = (strings_ToLower name = idColumnFlag fl)\<rparr>"
proof -
  have "strings_Split (plainForm2 name ty) sep_colon = [name, ty]"
    unfolding plainForm2_def
    by (simp add: strings_Split_append_sep [OF assms(2)] strings_Split_no_sep [OF assms(3)])
  then show ?thesis
    using assms(1) by (simp add: parsePlainColumnDefinition_def)
qed

lemma parsePlainColumnDefinition_three:
  assumes "name \<noteq> []" "sep_colon \<notin> set name" "sep_colon \<notin> set ty" "sep_colon \<notin> set con"
  shows "parsePlainColumnDefinition fl (plainForm3 name ty con)
           = Inr \<lparr>Name = name, Type = ty, Constraint = con,
                  ID = (strings_ToLower name = idColumnFlag fl)\<rparr>"
proof -
  have "strings_Split (plainForm3 name ty con) sep_colon = [name, ty, con]"
    unfolding plainForm3_def
    by (simp add: strings_Split_append_sep [OF assms(2)] strings_Split_append_sep [OF assms(3)]
        strings_Split_no_sep [OF assms(4)])
  then show ?thesis
    using assms(1) by (simp add: parsePlainColumnDefinition_def)
qed

lemma parsePlainColumnDefinition_error:
  "length (strings_Split s sep_colon) < 2 \<or> length (strings_Split s sep_colon) > 3
     \<or> strings_Split s sep_colon ! 0 = [] \<Longrightarrow>
   isBadArgument (parsePlainColumnDefinition fl s)"
  by (simp add: parsePlainColumnDefinition_def Let_def isBadArgument_def errBadArgument_bad)

lemma parseColumnDefinition_plain_forms:
  assumes "name \<noteq> []" "sep_colon \<notin> set name" "sep_at \<notin> set name"
    "sep_colon \<notin> set ty" "sep_at \<notin> set ty" "sep_colon \<notin> set con" "sep_at \<notin> set con"
  shows "parseColumnDefinition fl (plainForm2 name ty)
           = Inr \<lparr>Name = name, Type = ty, Constraint = [],
                  ID = (strings_ToLower name = idColumnFlag fl)\<rparr>"
    and "parseColumnDefinition fl (plainForm3 name ty con)
           = Inr \<lparr>Name = name, Type = ty, Constraint = con,
                  ID = (strings_ToLower name = idColumnFlag fl)\<rparr>"
proof -
  have "sep_colon \<in> set (plainForm2 name ty)" "sep_at \<notin> set (plainForm2 name ty)"
    using assms by (simp_all add: plainForm2_def sep_at_def sep_colon_def)
  then show "parseColumnDefinition fl (plainForm2 name ty)
           = Inr \<lparr>Name = name, Type = ty, Constraint = [],
                  ID = (strings_ToLower name = idColumnFlag fl)\<rparr>"
    by (simp add: parseColumnDefinition_plain
        parsePlainColumnDefinition_two [OF assms(1) assms(2) assms(4)])
  have "sep_colon \<in> set (plainForm3 name ty con)" "sep_at \<notin> set (plainForm3 name ty con)"
    using assms by (simp_all add: plainForm3_def sep_at_def sep_colon_def)
  then show "parseColumnDefinition fl (plainForm3 name ty con)
           = Inr \<lparr>Name = name, Type = ty, Constraint = con,
                  ID = (strings_ToLower name = idColumnFlag fl)\<rparr>"
    by (simp add: parseColumnDefinition_plain
        parsePlainColumnDefinition_three [OF assms(1) assms(2) assms(4) assms(6)])
qed

text \<open>
  Claim C2. The plain forms \<open>name:type\<close> and \<open>name:type:constraint\<close> give the column
  with the three parts as they are written (\<open>parseColumnDefinition_plain_forms\<close>). The
  column is an identifier exactly when the lower-cased name is the configured identifier
  column name as it was given: the configured name is not lower-cased. With the
  identifier column name configured as \<open>ID\<close>, the plain column \<open>ID:INTEGER\<close> is
  therefore not an identifier column, although its name is the configured name.
\<close>

theorem C2_id_column_name_not_lower_cased:
  "parseColumnDefinition (defaultFlags\<lparr>idColumnFlag := ''ID''\<rparr>) ''ID:INTEGER''
     = Inr \<lparr>Name = ''ID'', Type = ''INTEGER'', Constraint = [], ID = False\<rparr>"
  by code_simp

text \<open>
  Claim C5. The parser returns a bad-argument error, and no column, for a definition
  that contains both \<open>:\<close> and \<open>@\<close> or neither of them, and for a plain definition that
  splits at \<open>:\<close> into fewer than two or more than three parts or whose first part, the
  name, is empty.
\<close>

theorem C5_parse_errors:
  "((sep_colon \<in> set s \<and> sep_at \<in> set s) \<or> (sep_colon \<notin> set s \<and> sep_at \<notin> set s)
      \<longrightarrow> isBadArgument (parseColumnDefinition fl s))
   \<and> (length (strings_Split s sep_colon) < 2 \<or> length (strings_Split s sep_colon) > 3
        \<or> strings_Split s sep_colon ! 0 = []
      \<longrightarrow> isBadArgument (parsePlainColumnDefinition fl s)
          \<and> (sep_colon \<in> set s \<and> sep_at \<notin> set s
              \<longrightarrow> isBadArgument (parseColumnDefinition fl s)))"
proof (intro conjI impI)
  assume "(sep_colon \<in> set s \<and> sep_at \<in> set s) \<or> (sep_colon \<notin> set s \<and> sep_at \<notin> set s)"
  then show "isBadArgument (parseColumnDefinition fl s)"
    by (auto simp add: parseColumnDefinition_def strings_Contains_def plainColumnSep_def
        smartColumnSep_def isBadArgument_def errBadArgument_bad)
next
  assume a: "length (strings_Split s sep_colon) < 2 \<or> length (strings_Split s sep_colon) > 3
        \<or> strings_Split s sep_colon ! 0 = []"
  show "isBadArgument (parsePlainColumnDefinition fl s)"
    by (rule parsePlainColumnDefinition_error [OF a])
  assume "sep_colon \<in> set s \<and> sep_at \<notin> set s"
  then show "isBadArgument (parseColumnDefinition fl s)"
    by (simp add: parseColumnDefinition_plain parsePlainColumnDefinition_error [OF a])
qed

theorem C5_parse_errors_witness:
  "isBadArgument (parseColumnDefinition defaultFlags ''a:b@text'')
   \<and> isBadArgument (parseColumnDefinition defaultFlags ''name'')
   \<and> isBadArgument (parseColumnDefinition defaultFlags ''a:b:c:d'')
   \<and> isBadArgument (parseColumnDefinition defaultFlags '':type'')
   \<and> isBadArgument (parsePlainColumnDefinition defaultFlags ''name'')"
  using C5_parse_errors [of "''a:b@text''" defaultFlags]
    C5_parse_errors [of "''name''" defaultFlags]
    C5_parse_errors [of "''a:b:c:d''" defaultFlags]
    C5_parse_errors [of "'':type''" defaultFlags]
  by (simp add: sep_colon_def sep_at_def)

section \<open>The parsed arguments\<close>

lemma capitalize_None_iff: "capitalize s = None \<longleftrightarrow> s = []"
  by (simp add: capitalize_def split: list.splits)

lemma upperCamelCase_loop_None_iff: "upperCamelCase_loop b ps = None \<longleftrightarrow> [] \<in> set ps"
proof (induction ps arbitrary: b)
  case Nil
  then show ?case by simp
next
  case (Cons p ps)
  then show ?case
    by (cases p) (simp_all add: capitalize_def)
qed

lemma upperCamelCase_None_iff:
  "upperCamelCase s = None \<longleftrightarrow> [] \<in> set (strings_Split s sep_underscore)"
proof (cases "sep_underscore \<in> set s")
  case True
  then have "count_list s sep_underscore \<noteq> 0" by (simp add: count_list_0_iff)
  then have "length (strings_Split s sep_underscore) \<noteq> 1"
    by (simp add: length_strings_Split)
  then show ?thesis
    by (simp add: upperCamelCase_def Let_def upperCamelCase_loop_None_iff)
next
  case False
  then show ?thesis
    by (auto simp add: upperCamelCase_def strings_Split_no_sep capitalize_None_iff)
qed

lemma columnLoop_Inr:
  "columnLoop fl sca args = Inr sca' \<Longrightarrow>
   \<exists>cols. map (parseColumnDefinition fl) args = map Inr cols
     \<and> Columns sca' = Columns sca @ cols
     \<and> NonIDColumns sca' = NonIDColumns sca @ filter (\<lambda>c. \<not> ID c) cols
     \<and> IDColumn sca' = (if filter ID cols = [] then IDColumn sca
                         else Some (last (filter ID cols)))
     \<and> Output sca' = Output sca \<and> NoReturningClause sca' = NoReturningClause sca
     \<and> Table sca' = Table sca"
proof (induction args arbitrary: sca)
  case Nil
  then show ?case by simp
next
  case (Cons arg rest)
  from Cons.prems obtain col where p: "parseColumnDefinition fl arg = Inr col"
    by (cases "parseColumnDefinition fl arg") auto
  define sca1 where "sca1 = (if int (length (Name col)) > LongestName sca
                       then sca\<lparr>LongestName := int (length (Name col))\<rparr> else sca)"
  define sca2 where "sca2 = (if int (length (Type col)) > LongestType sca1
                       then sca1\<lparr>LongestType := int (length (Type col))\<rparr> else sca1)"
  define sca3 where "sca3 = sca2\<lparr>Columns := Columns sca2 @ [col]\<rparr>"
  define sca4 where "sca4 = (if ID col then sca3\<lparr>IDColumn := Some col\<rparr>
                       else sca3\<lparr>NonIDColumns := NonIDColumns sca3 @ [col]\<rparr>)"
  have "columnLoop fl sca (arg # rest) = columnLoop fl sca4 rest"
    unfolding sca4_def sca3_def sca2_def sca1_def
    by (simp only: columnLoop.simps p sum.case Let_def)
  then have step: "columnLoop fl sca4 rest = Inr sca'"
    using Cons.prems by simp
  have f: "Columns sca4 = Columns sca @ [col]"
    "NonIDColumns sca4 = NonIDColumns sca @ (if ID col then [] else [col])"
    "IDColumn sca4 = (if ID col then Some col else IDColumn sca)"
    "Output sca4 = Output sca" "NoReturningClause sca4 = NoReturningClause sca"
    "Table sca4 = Table sca"
    by (simp_all add: sca1_def sca2_def sca3_def sca4_def)
  from Cons.IH [OF step] obtain cols where
    c: "map (parseColumnDefinition fl) rest = map Inr cols"
      "Columns sca' = Columns sca4 @ cols"
      "NonIDColumns sca' = NonIDColumns sca4 @ filter (\<lambda>c. \<not> ID c) cols"
      "IDColumn sca' = (if filter ID cols = [] then IDColumn sca4
                         else Some (last (filter ID cols)))"
      "Output sca' = Output sca4" "NoReturningClause sca' = NoReturningClause sca4"
      "Table sca' = Table sca4"
    by blast
  show ?case
    by (rule exI [of _ "col # cols"]) (simp add: p c f)
qed

lemma parseScaffoldCommandArgs_Inr:
  assumes "parseScaffoldCommandArgs fl args = Some (Inr sca)"
  shows "map (parseColumnDefinition fl) (tl args) = map Inr (Columns sca)
     \<and> NonIDColumns sca = filter (\<lambda>c. \<not> ID c) (Columns sca)
     \<and> IDColumn sca = (if filter ID (Columns sca) = [] then None
                        else Some (last (filter ID (Columns sca))))"
proof -
  from assms obtain sca0 where l: "columnLoop fl sca0 (tl args) = Inr sca"
    and z: "Columns sca0 = []" "NonIDColumns sca0 = []" "IDColumn sca0 = None"
    unfolding parseScaffoldCommandArgs_def Let_def
    by (auto split: if_splits option.splits)
  from columnLoop_Inr [OF l] show ?thesis by (auto simp add: z)
qed

lemma columnLoop_accepts:
  "\<forall>arg\<in>set args. \<exists>col. parseColumnDefinition fl arg = Inr col \<Longrightarrow>
   \<exists>sca'. columnLoop fl sca args = Inr sca'"
proof (induction args arbitrary: sca)
  case Nil
  then show ?case by simp
next
  case (Cons arg rest)
  then obtain col where p: "parseColumnDefinition fl arg = Inr col" by auto
  have r: "\<forall>arg\<in>set rest. \<exists>col. parseColumnDefinition fl arg = Inr col"
    using Cons.prems by simp
  show ?case
    unfolding columnLoop.simps p sum.case Let_def by (rule Cons.IH [OF r])
qed

lemma filter_ID_parsed:
  "map (parseColumnDefinition fl) args = map Inr cols \<Longrightarrow>
   length (filter ID cols) = length (filter (isIdentifierDefinition fl) args)"
proof (induction args arbitrary: cols)
  case Nil
  then show ?case by simp
next
  case (Cons arg rest)
  then obtain c cs where cols: "cols = c # cs" by (cases cols) auto
  with Cons.prems have p: "parseColumnDefinition fl arg = Inr c"
    and r: "map (parseColumnDefinition fl) rest = map Inr cs" by simp_all
  show ?case
    using Cons.IH [OF r] by (simp add: cols isIdentifierDefinition_def p)
qed

lemma writeCreateQuery_names_closed:
  "i + length cols = length (NonIDColumns args) \<Longrightarrow>
   writeCreateQuery_names w args i cols
     = w @ (if cols = [] then [] else strings_Join (map Name cols) '', '' @ newline)"
proof (induction cols arbitrary: w i)
  case Nil
  then show ?case by simp
next
  case (Cons col cols)
  show ?case
  proof (cases cols)
    case Nil
    with Cons.prems have "int i = int (length (NonIDColumns args)) - 1" by simp
    then show ?thesis by (simp add: Nil Let_def)
  next
    case (Cons c2 cs)
    with Cons.prems have ne: "int i \<noteq> int (length (NonIDColumns args)) - 1" by simp
    have l: "Suc i + length cols = length (NonIDColumns args)" using Cons.prems by simp
    show ?thesis
      unfolding writeCreateQuery_names.simps Let_def Cons.IH [OF l]
      using ne by (simp add: Cons)
  qed
qed

lemma writeUpdateQuery_loop_closed:
  "i + length cols = length (NonIDColumns args) \<Longrightarrow>
   writeUpdateQuery_loop w args i cols
     = w @ (if cols = [] then []
            else strings_Join (map (\<lambda>c. ''  '' @ Name c @ '' = ?'') cols) ('','' @ newline)
                 @ newline)"
proof (induction cols arbitrary: w i)
  case Nil
  then show ?case by simp
next
  case (Cons col cols)
  show ?case
  proof (cases cols)
    case Nil
    with Cons.prems have "\<not> int i < int (length (NonIDColumns args)) - 1" by simp
    then show ?thesis by (simp add: Nil Let_def)
  next
    case (Cons c2 cs)
    with Cons.prems have lt: "int i < int (length (NonIDColumns args)) - 1" by simp
    have l: "Suc i + length cols = length (NonIDColumns args)" using Cons.prems by simp
    show ?thesis
      unfolding writeUpdateQuery_loop.simps Let_def Cons.IH [OF l]
      using lt by (simp add: Cons)
  qed
qed

text \<open>
  Claim C8. The entity labels of a name \<open>singular/plural\<close> with both halves non-empty.
  \<open>upperCamelCase\<close> panics exactly when a part between underscores is empty
  (\<open>upperCamelCase_None_iff\<close>): the name \<open>a_/b\<close> passes the validation of the name and
  \<open>capitalize\<close> then indexes the empty part after the underscore.
\<close>

theorem C8_trailing_underscore_panics:
  "parseScaffoldCommandArgs defaultFlags [''a_/b''] = None"
  by code_simp

theorem C8_trailing_underscore_panics_witness:
  "length (strings_Split ''a_/b'' sep_slash) = 2
   \<and> strings_Split ''a_/b'' sep_slash ! 0 = ''a_''
   \<and> strings_Split ''a_/b'' sep_slash ! 1 = ''b''
   \<and> strings_Split ''a_'' sep_underscore = [''a'', []]
   \<and> parseScaffoldCommandArgs defaultFlags [''a_/b''] = None"
  using C8_trailing_underscore_panics by (simp add: sep_slash_def sep_underscore_def)

text \<open>
  Claim C1. The parser keeps every column as it parses: an accepted list has as many
  identifier columns as it has definitions that parse to an identifier column, so at most
  one when at most one definition does. The loop over the definitions accepts every list
  whose definitions parse, whatever the number of identifier columns.
\<close>

theorem C1_identifier_count:
  "(parseScaffoldCommandArgs fl args = Some (Inr sca) \<longrightarrow>
      length (filter ID (Columns sca)) = length (filter (isIdentifierDefinition fl) (tl args))
      \<and> (length (filter (isIdentifierDefinition fl) (tl args)) \<le> 1
          \<longrightarrow> length (filter ID (Columns sca)) \<le> 1))
   \<and> ((\<forall>arg\<in>set cargs. \<exists>col. parseColumnDefinition fl arg = Inr col)
        \<longrightarrow> (\<exists>sca'. columnLoop fl sca0 cargs = Inr sca'))"
proof (intro conjI impI)
  assume a: "parseScaffoldCommandArgs fl args = Some (Inr sca)"
  from parseScaffoldCommandArgs_Inr [OF a]
  have "map (parseColumnDefinition fl) (tl args) = map Inr (Columns sca)" by blast
  then show n: "length (filter ID (Columns sca))
      = length (filter (isIdentifierDefinition fl) (tl args))"
    by (rule filter_ID_parsed)
  assume "length (filter (isIdentifierDefinition fl) (tl args)) \<le> 1"
  with n show "length (filter ID (Columns sca)) \<le> 1" by simp
next
  assume "\<forall>arg\<in>set cargs. \<exists>col. parseColumnDefinition fl arg = Inr col"
  then show "\<exists>sca'. columnLoop fl sca0 cargs = Inr sca'"
    by (rule columnLoop_accepts)
qed

theorem C1_identifier_count_witness:
  "(case parseScaffoldCommandArgs defaultFlags [''author/authors'', ''@id'', ''name@text''] of
      Some (Inr sca) \<Rightarrow> length (filter ID (Columns sca)) = 1
    | _ \<Rightarrow> False)
   \<and> (\<forall>sca0. \<exists>sca'. columnLoop defaultFlags sca0 [''@id'', ''x@id''] = Inr sca')"
proof -
  have e: "parseScaffoldCommandArgs defaultFlags [''author/authors'', ''@id'', ''name@text'']
     = Some (Inr \<lparr>Table = ''authors'', SingularEntity = ''Author'', PluralEntity = ''Authors'',
          IDColumn = Some \<lparr>Name = ''id'', Type = ''INTEGER'', Constraint = ''PRIMARY KEY'',
                            ID = True\<rparr>,
          Columns = [\<lparr>Name = ''id'', Type = ''INTEGER'', Constraint = ''PRIMARY KEY'',
                       ID = True\<rparr>,
                     \<lparr>Name = ''name'', Type = ''TEXT'', Constraint = ''NOT NULL'',
                       ID = False\<rparr>],
          NonIDColumns = [\<lparr>Name = ''name'', Type = ''TEXT'', Constraint = ''NOT NULL'',
                       ID = False\<rparr>], LongestName = 4, LongestType = 7, NoExistsClause = False,
          OrderBy = [], NoReturningClause = False, Output = 3\<rparr>)"
    by code_simp
  have p1: "parseColumnDefinition defaultFlags ''@id''
      = Inr \<lparr>Name = ''id'', Type = ''INTEGER'', Constraint = ''PRIMARY KEY'', ID = True\<rparr>"
    by code_simp
  have p2: "parseColumnDefinition defaultFlags ''x@id''
      = Inr \<lparr>Name = ''x'', Type = ''INTEGER'', Constraint = ''PRIMARY KEY'', ID = True\<rparr>"
    by code_simp
  have p3: "parseColumnDefinition defaultFlags ''name@text''
      = Inr \<lparr>Name = ''name'', Type = ''TEXT'', Constraint = ''NOT NULL'', ID = False\<rparr>"
    by code_simp
  have a: "length (filter ID (Columns sca)) = 1"
    if "parseScaffoldCommandArgs defaultFlags [''author/authors'', ''@id'', ''name@text'']
          = Some (Inr sca)" for sca
    using that C1_identifier_count [of defaultFlags
        "[''author/authors'', ''@id'', ''name@text'']" sca "[]"]
    by (simp add: isIdentifierDefinition_def p1 p3)
  have b: "\<exists>sca'. columnLoop defaultFlags sca0 [''@id'', ''x@id''] = Inr sca'" for sca0
    using C1_identifier_count [of defaultFlags "[]" _ "[''@id'', ''x@id'']" sca0]
    by (simp add: p1 p2)
  show ?thesis
    using a [OF e] b by (simp add: e)
qed

text \<open>Two definitions with the \<open>id\<close> tag are accepted, and both columns are identifiers.\<close>

theorem C1_two_identifier_columns_accepted:
  "parseScaffoldCommandArgs defaultFlags [''a/b'', ''@id'', ''x@id'']
     = Some (Inr \<lparr>Table = ''b'', SingularEntity = ''A'', PluralEntity = ''B'',
          IDColumn = Some \<lparr>Name = ''x'', Type = ''INTEGER'', Constraint = ''PRIMARY KEY'',
                            ID = True\<rparr>,
          Columns = [\<lparr>Name = ''id'', Type = ''INTEGER'', Constraint = ''PRIMARY KEY'',
                       ID = True\<rparr>,
                     \<lparr>Name = ''x'', Type = ''INTEGER'', Constraint = ''PRIMARY KEY'',
                       ID = True\<rparr>],
          NonIDColumns = [], LongestName = 2, LongestType = 7, NoExistsClause = False,
          OrderBy = [], NoReturningClause = False, Output = 3\<rparr>)
   \<and> length (filter ID [\<lparr>Name = ''id'', Type = ''INTEGER'', Constraint = ''PRIMARY KEY'',
                             ID = True\<rparr>,
                           \<lparr>Name = ''x'', Type = ''INTEGER'', Constraint = ''PRIMARY KEY'',
                             ID = True\<rparr>]) = 2"
  by code_simp

text \<open>
  Claim C9. In the arguments the parser returns, the identifier column is the last
  column in input order that is an identifier, and the other columns, in input order,
  are exactly the columns that are not identifiers: the column lists of the \<open>INSERT\<close>
  and of the \<open>UPDATE ... SET\<close> templates name these and no identifier column.
\<close>

theorem C9_last_identifier_wins:
  "parseScaffoldCommandArgs fl args = Some (Inr sca) \<longrightarrow>
     map (parseColumnDefinition fl) (tl args) = map Inr (Columns sca)
     \<and> (filter ID (Columns sca) \<noteq> []
          \<longrightarrow> IDColumn sca = Some (last (filter ID (Columns sca))))
     \<and> NonIDColumns sca = filter (\<lambda>c. \<not> ID c) (Columns sca)
     \<and> writeCreateQuery_names w sca 0 (NonIDColumns sca)
         = w @ (if filter (\<lambda>c. \<not> ID c) (Columns sca) = [] then []
                else strings_Join (map Name (filter (\<lambda>c. \<not> ID c) (Columns sca))) '', ''
                     @ newline)
     \<and> writeUpdateQuery_loop w sca 0 (NonIDColumns sca)
         = w @ (if filter (\<lambda>c. \<not> ID c) (Columns sca) = [] then []
                else strings_Join (map (\<lambda>c. ''  '' @ Name c @ '' = ?'')
                                      (filter (\<lambda>c. \<not> ID c) (Columns sca)))
                       ('','' @ newline)
                     @ newline)"
proof
  assume a: "parseScaffoldCommandArgs fl args = Some (Inr sca)"
  note r = parseScaffoldCommandArgs_Inr [OF a]
  have n: "NonIDColumns sca = filter (\<lambda>c. \<not> ID c) (Columns sca)" using r by blast
  have c: "writeCreateQuery_names w sca 0 (NonIDColumns sca)
         = w @ (if NonIDColumns sca = [] then []
                else strings_Join (map Name (NonIDColumns sca)) '', '' @ newline)"
    by (rule writeCreateQuery_names_closed) simp
  have u: "writeUpdateQuery_loop w sca 0 (NonIDColumns sca)
         = w @ (if NonIDColumns sca = [] then []
                else strings_Join (map (\<lambda>c. ''  '' @ Name c @ '' = ?'') (NonIDColumns sca))
                       ('','' @ newline) @ newline)"
    by (rule writeUpdateQuery_loop_closed) simp
  show "map (parseColumnDefinition fl) (tl args) = map Inr (Columns sca)
     \<and> (filter ID (Columns sca) \<noteq> []
          \<longrightarrow> IDColumn sca = Some (last (filter ID (Columns sca))))
     \<and> NonIDColumns sca = filter (\<lambda>c. \<not> ID c) (Columns sca)
     \<and> writeCreateQuery_names w sca 0 (NonIDColumns sca)
         = w @ (if filter (\<lambda>c. \<not> ID c) (Columns sca) = [] then []
                else strings_Join (map Name (filter (\<lambda>c. \<not> ID c) (Columns sca))) '', ''
                     @ newline)
     \<and> writeUpdateQuery_loop w sca 0 (NonIDColumns sca)
         = w @ (if filter (\<lambda>c. \<not> ID c) (Columns sca) = [] then []
                else strings_Join (map (\<lambda>c. ''  '' @ Name c @ '' = ?'')
                                      (filter (\<lambda>c. \<not> ID c) (Columns sca)))
                       ('','' @ newline)
                     @ newline)"
    using r c u unfolding n by simp
qed

theorem C9_last_identifier_wins_witness:
  "(case parseScaffoldCommandArgs defaultFlags [''a/b'', ''@id'', ''x@id'', ''y@text''] of
      Some (Inr sca) \<Rightarrow>
        IDColumn sca = Some \<lparr>Name = ''x'', Type = ''INTEGER'', Constraint = ''PRIMARY KEY'',
                               ID = True\<rparr>
        \<and> NonIDColumns sca = [\<lparr>Name = ''y'', Type = ''TEXT'', Constraint = ''NOT NULL'',
                                 ID = False\<rparr>]
        \<and> writeCreateQuery_names [] sca 0 (NonIDColumns sca) = ''y'' @ newline
        \<and> writeUpdateQuery_loop [] sca 0 (NonIDColumns sca) = ''  y = ?'' @ newline
    | _ \<Rightarrow> False)"
proof -
  have e: "parseScaffoldCommandArgs defaultFlags [''a/b'', ''@id'', ''x@id'', ''y@text'']
     = Some (Inr \<lparr>Table = ''b'', SingularEntity = ''A'', PluralEntity = ''B'',
          IDColumn = Some \<lparr>Name = ''x'', Type = ''INTEGER'', Constraint = ''PRIMARY KEY'',
                            ID = True\<rparr>,
          Columns = [\<lparr>Name = ''id'', Type = ''INTEGER'', Constraint = ''PRIMARY KEY'',
                       ID = True\<rparr>,
                     \<lparr>Name = ''x'', Type = ''INTEGER'', Constraint = ''PRIMARY KEY'',
                       ID = True\<rparr>,
                     \<lparr>Name = ''y'', Type = ''TEXT'', Constraint = ''NOT NULL'',
                       ID = False\<rparr>],
          NonIDColumns = [\<lparr>Name = ''y'', Type = ''TEXT'', Constraint = ''NOT NULL'',
                       ID = False\<rparr>], LongestName = 2, LongestType = 7, NoExistsClause = False,
          OrderBy = [], NoReturningClause = False, Output = 3\<rparr>)"
    by code_simp
  show ?thesis
    using e C9_last_identifier_wins [of defaultFlags
        "[''a/b'', ''@id'', ''x@id'', ''y@text'']" _ "[]"]
    by simp
qed

section \<open>The text the formatter writes\<close>

lemma writeSchema_loop_append:
  "writeSchema_loop (w @ v) args ci cols = w @ writeSchema_loop v args ci cols"
  by (induction cols arbitrary: v ci) (simp_all add: Let_def writeSpaces_def)

lemma writeSchema_append: "writeSchema w args = w @ writeSchema [] args"
  using writeSchema_loop_append [of w _ args 0 "Columns args"]
  by (simp add: writeSchema_def Let_def)

lemma writeCreateQuery_values_append:
  "writeCreateQuery_values (w @ v) args i = w @ writeCreateQuery_values v args i"
proof (induction v args i arbitrary: w rule: writeCreateQuery_values.induct)
  case (1 v args i)
  show ?case
  proof (cases "i < length (NonIDColumns args)")
    case True
    show ?thesis
    proof (cases "int i < int (length (NonIDColumns args)) - 1")
      case t: True
      have "writeCreateQuery_values (w @ v) args i
              = writeCreateQuery_values (w @ (v @ ''?, '')) args (Suc i)"
        using True t by (simp add: writeCreateQuery_values.simps [of "w @ v"])
      also have "\<dots> = w @ writeCreateQuery_values (v @ ''?, '') args (Suc i)"
        using "1.IH" [OF True, of w] t by simp
      also have "\<dots> = w @ writeCreateQuery_values v args i"
        using True t by (simp add: writeCreateQuery_values.simps [of v])
      finally show ?thesis .
    next
      case f: False
      have "writeCreateQuery_values (w @ v) args i
              = writeCreateQuery_values (w @ (v @ ''?'' @ newline)) args (Suc i)"
        using True f by (simp add: writeCreateQuery_values.simps [of "w @ v"])
      also have "\<dots> = w @ writeCreateQuery_values (v @ ''?'' @ newline) args (Suc i)"
        using "1.IH" [OF True, of w] f by simp
      also have "\<dots> = w @ writeCreateQuery_values v args i"
        using True f by (simp add: writeCreateQuery_values.simps [of v])
      finally show ?thesis .
    qed
  next
    case False
    then show ?thesis
      by (simp add: writeCreateQuery_values.simps [of "w @ v"]
          writeCreateQuery_values.simps [of v])
  qed
qed

lemma writeListQuery_append: "writeListQuery w args = w @ writeListQuery [] args"
  by (simp add: writeListQuery_def Let_def)

lemma writeGetQuery_Some:
  "IDColumn args = Some idc \<Longrightarrow>
   writeGetQuery w args
     = Some (w @ queryLabel ''Get'' (SingularEntity args) '':one''
               @ ''SELECT * FROM '' @ Table args @ newline
               @ ''WHERE '' @ Name idc @ '' = ? LIMIT 1;'')"
  by (simp add: writeGetQuery_def queryLabel_def Let_def)

lemma writeDeleteQuery_Some:
  "IDColumn args = Some idc \<Longrightarrow>
   writeDeleteQuery w args
     = Some (w @ queryLabel ''Delete'' (SingularEntity args) '':exec''
               @ ''DELETE FROM '' @ Table args @ newline
               @ ''WHERE '' @ Name idc @ '' = ?;'')"
  by (simp add: writeDeleteQuery_def queryLabel_def Let_def)

lemma writeUpdateQuery_Some:
  "IDColumn args = Some idc \<Longrightarrow>
   writeUpdateQuery w args
     = Some (w @ queryLabel ''Update'' (SingularEntity args)
                   (if NoReturningClause args then '':exec'' else '':one'')
               @ ''UPDATE '' @ Table args @ newline @ ''SET'' @ newline
               @ writeUpdateQuery_loop [] args 0 (NonIDColumns args)
               @ ''WHERE '' @ Name idc @ '' = ?''
               @ (if NoReturningClause args then '';'' else newline @ ''RETURNING *;''))"
  by (simp add: writeUpdateQuery_def Let_def queryLabel_def writeUpdateQuery_loop_closed)

lemma writeCreateQuery_values_from_empty:
  "v \<noteq> [] \<Longrightarrow> writeCreateQuery_values v args i = v @ writeCreateQuery_values [] args i"
  using writeCreateQuery_values_append [of v "[]" args i] by simp

lemma writeListQuery_label:
  "writeListQuery w args
     = w @ queryLabel ''List'' (PluralEntity args) '':many''
         @ ''SELECT * FROM '' @ Table args
         @ (if OrderBy args = [] then '';'' else newline @ ''ORDER BY '' @ OrderBy args @ '';'')"
  by (simp add: writeListQuery_def queryLabel_def Let_def)

lemma writeCreateQuery_label:
  "writeCreateQuery w args
     = w @ queryLabel ''Create'' (SingularEntity args) '':one''
         @ ''INSERT INTO '' @ Table args @ '' ('' @ newline @ ''  ''
         @ writeCreateQuery_names [] args 0 (NonIDColumns args)
         @ '') VALUES ('' @ newline @ ''  ''
         @ writeCreateQuery_values [] args 0
         @ '')'' @ newline @ ''RETURNING *;''"
  by (simp add: writeCreateQuery_def Let_def queryLabel_def writeCreateQuery_names_closed
      writeCreateQuery_values_from_empty)

lemma writeCreateQuery_append: "writeCreateQuery w args = w @ writeCreateQuery [] args"
  by (simp add: writeCreateQuery_label [of w] writeCreateQuery_label [of "[]"])

lemma scaffoldCommand_before:
  "(let b0 = [];
        b1 = (if Output args AND outputAll = outputAll then
                b0 @ ''#############################################'' @ newline
                   @ ''# Add the following to your SQL schema file #'' @ newline
                   @ ''#############################################'' @ newline @ newline
              else b0);
        b2 = (if Output args AND outputSchema \<noteq> 0 then writeSchema b1 args @ newline @ newline
              else b1);
        b3 = (if Output args AND outputAll = outputAll then
                b2 @ ''##############################################'' @ newline
                   @ ''# Add the following to your SQL queries file #'' @ newline
                   @ ''##############################################'' @ newline @ newline
              else b2)
    in f b3) = f (beforeQueries args)"
  unfolding Let_def beforeQueries_def
  by (subst writeSchema_append) simp

lemma scaffoldCommand_unfold:
  "scaffoldCommand args =
     (if Output args AND outputQueries \<noteq> 0 then
           (case (if IDColumn args \<noteq> None
                  then map_option (\<lambda>w. w @ newline @ newline)
                         (writeGetQuery (beforeQueries args) args)
                  else Some (beforeQueries args)) of
              None \<Rightarrow> None
            | Some b4 \<Rightarrow>
                (let b5 = writeListQuery b4 args @ newline @ newline;
                     b6 = writeCreateQuery b5 args @ newline
                 in if IDColumn args \<noteq> None then
                      (case writeDeleteQuery (b6 @ newline) args of
                         None \<Rightarrow> None
                       | Some b7 \<Rightarrow>
                           (case writeUpdateQuery (b7 @ newline @ newline) args of
                              None \<Rightarrow> None
                            | Some b8 \<Rightarrow> Some (b8 @ newline @ newline)))
                    else Some b6))
         else Some (beforeQueries args))"
  unfolding scaffoldCommand_def by (rule scaffoldCommand_before)

lemma scaffoldCommand_without_identifier:
  assumes "Output args AND outputQueries \<noteq> 0" "IDColumn args = None"
  shows "scaffoldCommand args
     = Some (beforeQueries args @ writeListQuery [] args @ newline @ newline
             @ writeCreateQuery [] args @ newline)"
  unfolding scaffoldCommand_unfold Let_def
  using assms
  by (simp add: writeListQuery_append [of "beforeQueries args"]
      writeCreateQuery_append [of "beforeQueries args @ writeListQuery [] args @ newline @ newline"])

lemma scaffoldCommand_with_identifier:
  assumes "Output args AND outputQueries \<noteq> 0" "IDColumn args = Some idc"
  shows "\<exists>get del upd. writeGetQuery [] args = Some get
     \<and> writeDeleteQuery [] args = Some del
     \<and> writeUpdateQuery [] args = Some upd
     \<and> scaffoldCommand args
       = Some (beforeQueries args @ get @ newline @ newline
               @ writeListQuery [] args @ newline @ newline
               @ writeCreateQuery [] args @ newline @ newline
               @ del @ newline @ newline
               @ upd @ newline @ newline)"
proof -
  note g = writeGetQuery_Some [OF assms(2)]
  note d = writeDeleteQuery_Some [OF assms(2)]
  note u = writeUpdateQuery_Some [OF assms(2)]
  define get where "get = the (writeGetQuery [] args)"
  define del where "del = the (writeDeleteQuery [] args)"
  define upd where "upd = the (writeUpdateQuery [] args)"
  have g0: "writeGetQuery [] args = Some get" by (simp add: get_def g)
  have d0: "writeDeleteQuery [] args = Some del" by (simp add: del_def d)
  have u0: "writeUpdateQuery [] args = Some upd" by (simp add: upd_def u)
  have gw: "writeGetQuery w args = Some (w @ get)" for w
    using g0 by (simp add: g)
  have dw: "writeDeleteQuery w args = Some (w @ del)" for w
    using d0 by (simp add: d)
  have uw: "writeUpdateQuery w args = Some (w @ upd)" for w
    using u0 by (simp add: u)
  have "scaffoldCommand args
       = Some (beforeQueries args @ get @ newline @ newline
               @ writeListQuery [] args @ newline @ newline
               @ writeCreateQuery [] args @ newline @ newline
               @ del @ newline @ newline
               @ upd @ newline @ newline)"
    unfolding scaffoldCommand_unfold Let_def gw dw uw
    using assms
    by (simp add: writeListQuery_append [of "beforeQueries args @ get @ newline @ newline"]
      writeCreateQuery_append [of "beforeQueries args @ get @ newline @ newline @ writeListQuery [] args @ newline @ newline"])
  with g0 d0 u0 show ?thesis by blast
qed

lemma not_suffix_returning: "\<not> suffix ''RETURNING *;'' (xs @ '' = ?;'')"
  by (simp add: suffix_to_prefix)

text \<open>
  Claim C6. When queries are in the output, the text printed is the text before the
  queries followed by the query templates in a fixed order. With an identifier column
  these are \<open>Get\<close>, \<open>List\<close>, \<open>Create\<close>, \<open>Delete\<close> and \<open>Update\<close>, and no write panics;
  without one they are \<open>List\<close> and \<open>Create\<close> only. Each template begins with the line
  that names it.
\<close>

theorem C6_query_block_order:
  "Output args AND outputQueries \<noteq> 0 \<longrightarrow>
     (case IDColumn args of
        None \<Rightarrow>
          scaffoldCommand args
            = Some (beforeQueries args @ writeListQuery [] args @ newline @ newline
                    @ writeCreateQuery [] args @ newline)
      | Some idc \<Rightarrow>
          (\<exists>get del upd.
             writeGetQuery [] args = Some get
             \<and> writeDeleteQuery [] args = Some del
             \<and> writeUpdateQuery [] args = Some upd
             \<and> scaffoldCommand args
                 = Some (beforeQueries args @ get @ newline @ newline
                         @ writeListQuery [] args @ newline @ newline
                         @ writeCreateQuery [] args @ newline @ newline
                         @ del @ newline @ newline
                         @ upd @ newline @ newline)
             \<and> prefix (queryLabel ''Get'' (SingularEntity args) '':one'') get
             \<and> prefix (queryLabel ''Delete'' (SingularEntity args) '':exec'') del
             \<and> prefix (queryLabel ''Update'' (SingularEntity args)
                          (if NoReturningClause args then '':exec'' else '':one'')) upd))
     \<and> prefix (queryLabel ''List'' (PluralEntity args) '':many'') (writeListQuery [] args)
     \<and> prefix (queryLabel ''Create'' (SingularEntity args) '':one'')
           (writeCreateQuery [] args)"
proof
  assume q: "Output args AND outputQueries \<noteq> 0"
  have l: "prefix (queryLabel ''List'' (PluralEntity args) '':many'') (writeListQuery [] args)"
    unfolding writeListQuery_label [of "[]"] by simp
  have c: "prefix (queryLabel ''Create'' (SingularEntity args) '':one'')
           (writeCreateQuery [] args)"
    unfolding writeCreateQuery_label [of "[]"] by simp
  have b: "case IDColumn args of
        None \<Rightarrow>
          scaffoldCommand args
            = Some (beforeQueries args @ writeListQuery [] args @ newline @ newline
                    @ writeCreateQuery [] args @ newline)
      | Some idc \<Rightarrow>
          (\<exists>get del upd.
             writeGetQuery [] args = Some get
             \<and> writeDeleteQuery [] args = Some del
             \<and> writeUpdateQuery [] args = Some upd
             \<and> scaffoldCommand args
                 = Some (beforeQueries args @ get @ newline @ newline
                         @ writeListQuery [] args @ newline @ newline
                         @ writeCreateQuery [] args @ newline @ newline
                         @ del @ newline @ newline
                         @ upd @ newline @ newline)
             \<and> prefix (queryLabel ''Get'' (SingularEntity args) '':one'') get
             \<and> prefix (queryLabel ''Delete'' (SingularEntity args) '':exec'') del
             \<and> prefix (queryLabel ''Update'' (SingularEntity args)
                          (if NoReturningClause args then '':exec'' else '':one'')) upd)"
  proof (cases "IDColumn args")
    case None
    then show ?thesis
      using scaffoldCommand_without_identifier [OF q None] by simp
  next
    case (Some idc)
    from scaffoldCommand_with_identifier [OF q Some]
    obtain get del upd where g: "writeGetQuery [] args = Some get"
      and d: "writeDeleteQuery [] args = Some del"
      and u: "writeUpdateQuery [] args = Some upd"
      and s: "scaffoldCommand args
       = Some (beforeQueries args @ get @ newline @ newline
               @ writeListQuery [] args @ newline @ newline
               @ writeCreateQuery [] args @ newline @ newline
               @ del @ newline @ newline
               @ upd @ newline @ newline)"
      by blast
    have pg: "prefix (queryLabel ''Get'' (SingularEntity args) '':one'') get"
      using g unfolding writeGetQuery_Some [OF Some] by auto
    have pd: "prefix (queryLabel ''Delete'' (SingularEntity args) '':exec'') del"
      using d unfolding writeDeleteQuery_Some [OF Some] by auto
    have pu: "prefix (queryLabel ''Update'' (SingularEntity args)
                          (if NoReturningClause args then '':exec'' else '':one'')) upd"
      using u unfolding writeUpdateQuery_Some [OF Some] by auto
    show ?thesis
      unfolding Some option.case using g d u s pg pd pu by blast
  qed
  from b l c show "(case IDColumn args of
        None \<Rightarrow>
          scaffoldCommand args
            = Some (beforeQueries args @ writeListQuery [] args @ newline @ newline
                    @ writeCreateQuery [] args @ newline)
      | Some idc \<Rightarrow>
          (\<exists>get del upd.
             writeGetQuery [] args = Some get
             \<and> writeDeleteQuery [] args = Some del
             \<and> writeUpdateQuery [] args = Some upd
             \<and> scaffoldCommand args
                 = Some (beforeQueries args @ get @ newline @ newline
                         @ writeListQuery [] args @ newline @ newline
                         @ writeCreateQuery [] args @ newline @ newline
                         @ del @ newline @ newline
                         @ upd @ newline @ newline)
             \<and> prefix (queryLabel ''Get'' (SingularEntity args) '':one'') get
             \<and> prefix (queryLabel ''Delete'' (SingularEntity args) '':exec'') del
             \<and> prefix (queryLabel ''Update'' (SingularEntity args)
                          (if NoReturningClause args then '':exec'' else '':one'')) upd))
     \<and> prefix (queryLabel ''List'' (PluralEntity args) '':many'') (writeListQuery [] args)
     \<and> prefix (queryLabel ''Create'' (SingularEntity args) '':one'')
           (writeCreateQuery [] args)"
    by blast
qed

theorem C6_query_block_order_witness:
  "outputQueries AND outputQueries \<noteq> 0
   \<and> scaffoldCommand
        \<lparr>Table = ''authors'', SingularEntity = ''Author'', PluralEntity = ''Authors'',
          IDColumn = Some \<lparr>Name = ''id'', Type = ''INTEGER'', Constraint = ''PRIMARY KEY'',
                            ID = True\<rparr>,
          Columns = [\<lparr>Name = ''id'', Type = ''INTEGER'', Constraint = ''PRIMARY KEY'',
                       ID = True\<rparr>,
                     \<lparr>Name = ''name'', Type = ''TEXT'', Constraint = ''NOT NULL'',
                       ID = False\<rparr>],
          NonIDColumns = [\<lparr>Name = ''name'', Type = ''TEXT'', Constraint = ''NOT NULL'',
                            ID = False\<rparr>],
          LongestName = 4, LongestType = 7, NoExistsClause = False,
          OrderBy = [], NoReturningClause = False, Output = outputQueries\<rparr>
     = Some (''-- name: GetAuthor :one'' @ newline
             @ ''SELECT * FROM authors'' @ newline
             @ ''WHERE id = ? LIMIT 1;'' @ newline @ newline
             @ ''-- name: ListAuthors :many'' @ newline
             @ ''SELECT * FROM authors;'' @ newline @ newline
             @ ''-- name: CreateAuthor :one'' @ newline
             @ ''INSERT INTO authors ('' @ newline
             @ ''  name'' @ newline
             @ '') VALUES ('' @ newline
             @ ''  ?'' @ newline
             @ '')'' @ newline
             @ ''RETURNING *;'' @ newline @ newline
             @ ''-- name: DeleteAuthor :exec'' @ newline
             @ ''DELETE FROM authors'' @ newline
             @ ''WHERE id = ?;'' @ newline @ newline
             @ ''-- name: UpdateAuthor :one'' @ newline
             @ ''UPDATE authors'' @ newline
             @ ''SET'' @ newline
             @ ''  name = ?'' @ newline
             @ ''WHERE id = ?'' @ newline
             @ ''RETURNING *;'' @ newline @ newline)
   \<and> scaffoldCommand
        \<lparr>Table = ''authors'', SingularEntity = ''Author'', PluralEntity = ''Authors'',
          IDColumn = None,
          Columns = [\<lparr>Name = ''name'', Type = ''TEXT'', Constraint = ''NOT NULL'',
                       ID = False\<rparr>],
          NonIDColumns = [\<lparr>Name = ''name'', Type = ''TEXT'', Constraint = ''NOT NULL'',
                            ID = False\<rparr>],
          LongestName = 4, LongestType = 4, NoExistsClause = False,
          OrderBy = [], NoReturningClause = False, Output = outputQueries\<rparr>
     = Some (''-- name: ListAuthors :many'' @ newline
             @ ''SELECT * FROM authors;'' @ newline @ newline
             @ ''-- name: CreateAuthor :one'' @ newline
             @ ''INSERT INTO authors ('' @ newline
             @ ''  name'' @ newline
             @ '') VALUES ('' @ newline
             @ ''  ?'' @ newline
             @ '')'' @ newline
             @ ''RETURNING *;'' @ newline)"
proof -
  have q: "outputQueries AND outputQueries \<noteq> 0"
    by (simp add: outputQueries_def)
  have v: "writeCreateQuery_values w args 0 = w @ ''?'' @ newline"
    if "length (NonIDColumns args) = 1" for w args
    using that by (simp add: writeCreateQuery_values.simps)
  show ?thesis
    using q
      C6_query_block_order [of
        "\<lparr>Table = ''authors'', SingularEntity = ''Author'', PluralEntity = ''Authors'',
          IDColumn = Some \<lparr>Name = ''id'', Type = ''INTEGER'', Constraint = ''PRIMARY KEY'',
                            ID = True\<rparr>,
          Columns = [\<lparr>Name = ''id'', Type = ''INTEGER'', Constraint = ''PRIMARY KEY'',
                       ID = True\<rparr>,
                     \<lparr>Name = ''name'', Type = ''TEXT'', Constraint = ''NOT NULL'',
                       ID = False\<rparr>],
          NonIDColumns = [\<lparr>Name = ''name'', Type = ''TEXT'', Constraint = ''NOT NULL'',
                            ID = False\<rparr>],
          LongestName = 4, LongestType = 7, NoExistsClause = False,
          OrderBy = [], NoReturningClause = False, Output = outputQueries\<rparr>"]
      C6_query_block_order [of
        "\<lparr>Table = ''authors'', SingularEntity = ''Author'', PluralEntity = ''Authors'',
          IDColumn = None,
          Columns = [\<lparr>Name = ''name'', Type = ''TEXT'', Constraint = ''NOT NULL'',
                       ID = False\<rparr>],
          NonIDColumns = [\<lparr>Name = ''name'', Type = ''TEXT'', Constraint = ''NOT NULL'',
                            ID = False\<rparr>],
          LongestName = 4, LongestType = 4, NoExistsClause = False,
          OrderBy = [], NoReturningClause = False, Output = outputQueries\<rparr>"]
    by (auto simp add: v beforeQueries_def outputAll_def outputSchema_def outputQueries_def
        writeGetQuery_def writeDeleteQuery_def writeUpdateQuery_def writeListQuery_def
        writeCreateQuery_def Let_def)
qed

text \<open>
  Claim C7. With an identifier column and queries in the output, the \<open>Update\<close> template
  is the last template printed. Its first line gives the mode \<open>:exec\<close> when the
  \<open>RETURNING\<close> clause is omitted and \<open>:one\<close> otherwise; it ends with \<open>RETURNING *;\<close>
  exactly when the clause is not omitted, and with the \<open>WHERE\<close> clause otherwise.
\<close>

theorem C7_update_mode:
  "IDColumn args = Some idc \<and> Output args AND outputQueries \<noteq> 0 \<longrightarrow>
     (\<exists>upd. writeUpdateQuery [] args = Some upd
        \<and> (\<exists>before. scaffoldCommand args = Some (before @ upd @ newline @ newline))
        \<and> prefix (queryLabel ''Update'' (SingularEntity args)
                     (if NoReturningClause args then '':exec'' else '':one'')) upd
        \<and> (suffix ''RETURNING *;'' upd \<longleftrightarrow> \<not> NoReturningClause args)
        \<and> (if NoReturningClause args
            then suffix (''WHERE '' @ Name idc @ '' = ?;'') upd
            else suffix (''WHERE '' @ Name idc @ '' = ?'' @ newline @ ''RETURNING *;'') upd))"
proof
  assume a: "IDColumn args = Some idc \<and> Output args AND outputQueries \<noteq> 0"
  then have i: "IDColumn args = Some idc" and q: "Output args AND outputQueries \<noteq> 0"
    by blast+
  define body where "body = queryLabel ''Update'' (SingularEntity args)
                   (if NoReturningClause args then '':exec'' else '':one'')
               @ ''UPDATE '' @ Table args @ newline @ ''SET'' @ newline
               @ writeUpdateQuery_loop [] args 0 (NonIDColumns args)"
  define upd where "upd = body @ ''WHERE '' @ Name idc @ '' = ?''
               @ (if NoReturningClause args then '';'' else newline @ ''RETURNING *;'')"
  have u: "writeUpdateQuery [] args = Some upd"
    unfolding writeUpdateQuery_Some [OF i] upd_def body_def by simp
  from scaffoldCommand_with_identifier [OF q i] u
  have s: "\<exists>before. scaffoldCommand args = Some (before @ upd @ newline @ newline)"
    by (metis append.assoc option.inject)
  have p: "prefix (queryLabel ''Update'' (SingularEntity args)
                     (if NoReturningClause args then '':exec'' else '':one'')) upd"
    unfolding upd_def body_def by simp
  have r: "suffix ''RETURNING *;'' upd \<longleftrightarrow> \<not> NoReturningClause args"
  proof (cases "NoReturningClause args")
    case True
    have "upd = (body @ ''WHERE '' @ Name idc) @ '' = ?;''"
      by (simp add: upd_def True)
    then show ?thesis
      using not_suffix_returning [of "body @ ''WHERE '' @ Name idc"] True by simp
  next
    case False
    have "upd = (body @ ''WHERE '' @ Name idc @ '' = ?'' @ newline) @ ''RETURNING *;''"
      by (simp add: upd_def False)
    then show ?thesis using False by (metis suffixI)
  qed
  have w: "if NoReturningClause args
            then suffix (''WHERE '' @ Name idc @ '' = ?;'') upd
            else suffix (''WHERE '' @ Name idc @ '' = ?'' @ newline @ ''RETURNING *;'') upd"
  proof (cases "NoReturningClause args")
    case True
    have "upd = body @ (''WHERE '' @ Name idc @ '' = ?;'')"
      by (simp add: upd_def True)
    then show ?thesis using True by (metis suffixI)
  next
    case False
    have "upd = body @ (''WHERE '' @ Name idc @ '' = ?'' @ newline @ ''RETURNING *;'')"
      by (simp add: upd_def False)
    then show ?thesis using False by (metis suffixI)
  qed
  show "\<exists>upd. writeUpdateQuery [] args = Some upd
        \<and> (\<exists>before. scaffoldCommand args = Some (before @ upd @ newline @ newline))
        \<and> prefix (queryLabel ''Update'' (SingularEntity args)
                     (if NoReturningClause args then '':exec'' else '':one'')) upd
        \<and> (suffix ''RETURNING *;'' upd \<longleftrightarrow> \<not> NoReturningClause args)
        \<and> (if NoReturningClause args
            then suffix (''WHERE '' @ Name idc @ '' = ?;'') upd
            else suffix (''WHERE '' @ Name idc @ '' = ?'' @ newline @ ''RETURNING *;'') upd)"
    using u s p r w by blast
qed

theorem C7_update_mode_witness:
  "Output \<lparr>Table = ''authors'', SingularEntity = ''Author'', PluralEntity = ''Authors'',
          IDColumn = Some \<lparr>Name = ''id'', Type = ''INTEGER'', Constraint = ''PRIMARY KEY'',
                            ID = True\<rparr>,
          Columns = [\<lparr>Name = ''id'', Type = ''INTEGER'', Constraint = ''PRIMARY KEY'',
                       ID = True\<rparr>,
                     \<lparr>Name = ''name'', Type = ''TEXT'', Constraint = ''NOT NULL'',
                       ID = False\<rparr>],
          NonIDColumns = [\<lparr>Name = ''name'', Type = ''TEXT'', Constraint = ''NOT NULL'',
                            ID = False\<rparr>],
          LongestName = 4, LongestType = 7, NoExistsClause = False,
          OrderBy = [], NoReturningClause = True, Output = outputAll\<rparr>
     AND outputQueries \<noteq> 0
   \<and> writeUpdateQuery []
        \<lparr>Table = ''authors'', SingularEntity = ''Author'', PluralEntity = ''Authors'',
          IDColumn = Some \<lparr>Name = ''id'', Type = ''INTEGER'', Constraint = ''PRIMARY KEY'',
                            ID = True\<rparr>,
          Columns = [\<lparr>Name = ''id'', Type = ''INTEGER'', Constraint = ''PRIMARY KEY'',
                       ID = True\<rparr>,
                     \<lparr>Name = ''name'', Type = ''TEXT'', Constraint = ''NOT NULL'',
                       ID = False\<rparr>],
          NonIDColumns = [\<lparr>Name = ''name'', Type = ''TEXT'', Constraint = ''NOT NULL'',
                            ID = False\<rparr>],
          LongestName = 4, LongestType = 7, NoExistsClause = False,
          OrderBy = [], NoReturningClause = True, Output = outputAll\<rparr>
     = Some (''-- name: UpdateAuthor :exec'' @ newline
             @ ''UPDATE authors'' @ newline
             @ ''SET'' @ newline
             @ ''  name = ?'' @ newline
             @ ''WHERE id = ?;'')
   \<and> \<not> suffix ''RETURNING *;''
         (''-- name: UpdateAuthor :exec'' @ newline
          @ ''UPDATE authors'' @ newline
          @ ''SET'' @ newline
          @ ''  name = ?'' @ newline
          @ ''WHERE id = ?;'')"
proof -
  have q: "(3 :: 8 word) AND 2 \<noteq> 0" by simp
  show ?thesis
    using q C7_update_mode [of
        "\<lparr>Table = ''authors'', SingularEntity = ''Author'', PluralEntity = ''Authors'',
          IDColumn = Some \<lparr>Name = ''id'', Type = ''INTEGER'', Constraint = ''PRIMARY KEY'',
                            ID = True\<rparr>,
          Columns = [\<lparr>Name = ''id'', Type = ''INTEGER'', Constraint = ''PRIMARY KEY'',
                       ID = True\<rparr>,
                     \<lparr>Name = ''name'', Type = ''TEXT'', Constraint = ''NOT NULL'',
                       ID = False\<rparr>],
          NonIDColumns = [\<lparr>Name = ''name'', Type = ''TEXT'', Constraint = ''NOT NULL'',
                            ID = False\<rparr>],
          LongestName = 4, LongestType = 7, NoExistsClause = False,
          OrderBy = [], NoReturningClause = True, Output = outputAll\<rparr>"
        "\<lparr>Name = ''id'', Type = ''INTEGER'', Constraint = ''PRIMARY KEY'', ID = True\<rparr>"]
    by (auto simp add: outputAll_def outputSchema_def outputQueries_def writeUpdateQuery_def
        Let_def)
qed

section \<open>The schema of a column with an empty part\<close>

lemma writeSchema_loop_split:
  "writeSchema_loop w args ci (pre @ col # post)
     = writeSchema_loop w args ci pre
       @ ''  '' @ Name col @ '' ''
       @ replicate (nat (LongestName args - int (length (Name col)))) CHR '' ''
       @ Type col
       @ (if Constraint col \<noteq> []
          then replicate (nat (LongestType args - int (length (Type col)))) CHR '' ''
               @ '' '' @ Constraint col
          else [])
       @ (if int (ci + length pre) < int (length (Columns args)) - 1 then '','' else [])
       @ newline
       @ writeSchema_loop [] args (Suc (ci + length pre)) post"
proof (induction pre arbitrary: w ci)
  case Nil
  define line where "line = ''  '' @ Name col @ '' ''
       @ replicate (nat (LongestName args - int (length (Name col)))) CHR '' ''
       @ Type col
       @ (if Constraint col \<noteq> []
          then replicate (nat (LongestType args - int (length (Type col)))) CHR '' ''
               @ '' '' @ Constraint col
          else [])
       @ (if int ci < int (length (Columns args)) - 1 then '','' else [])
       @ newline"
  have "writeSchema_loop w args ci (col # post)
          = writeSchema_loop (w @ line) args (Suc ci) post"
    by (simp add: Let_def writeSpaces_def line_def)
  also have "\<dots> = (w @ line) @ writeSchema_loop [] args (Suc ci) post"
    using writeSchema_loop_append [of "w @ line" "[]" args "Suc ci" post] by simp
  finally show ?case by (simp add: line_def)
next
  case (Cons p pre)
  show ?case
    unfolding append_Cons writeSchema_loop.simps Let_def Cons.IH
    by simp
qed

lemma writeSchema_column:
  assumes "Columns args = pre @ col # post"
  shows "writeSchema [] args
     = ''CREATE TABLE '' @ (if NoExistsClause args then [] else ''IF NOT EXISTS '')
       @ Table args @ '' ('' @ newline
       @ writeSchema_loop [] args 0 pre
       @ ''  '' @ Name col @ '' ''
       @ replicate (nat (LongestName args - int (length (Name col)))) CHR '' ''
       @ Type col
       @ (if Constraint col \<noteq> []
          then replicate (nat (LongestType args - int (length (Type col)))) CHR '' ''
               @ '' '' @ Constraint col
          else [])
       @ (if post \<noteq> [] then '','' else [])
       @ newline
       @ writeSchema_loop [] args (Suc (length pre)) post
       @ '');''"
proof -
  have c: "(int (length pre) < int (length (Columns args)) - 1) = (post \<noteq> [])"
    by (auto simp add: assms)
  have l: "w \<noteq> [] \<Longrightarrow> writeSchema_loop w args 0 pre = w @ writeSchema_loop [] args 0 pre"
    for w
    using writeSchema_loop_append [of w "[]" args 0 pre] by simp
  have "writeSchema [] args
     = writeSchema_loop (''CREATE TABLE '' @ (if NoExistsClause args then [] else ''IF NOT EXISTS '')
         @ Table args @ '' ('' @ newline) args 0 (pre @ col # post) @ '');''"
    by (simp add: writeSchema_def Let_def assms)
  then show ?thesis
    unfolding writeSchema_loop_split
    by (simp add: c l)
qed

lemma scaffoldCommand_schema_only:
  "Output args = outputSchema \<Longrightarrow>
   scaffoldCommand args = Some (writeSchema [] args @ newline @ newline)"
  by (simp add: scaffoldCommand_def Let_def outputSchema_def outputAll_def outputQueries_def)

text \<open>
  Claim C10. A plain column whose type or constraint part is empty is accepted: \<open>name:\<close>,
  \<open>name::\<close>, \<open>name::constraint\<close> and \<open>name:type:\<close> parse to the column that has the
  empty string for the empty part, and no error is returned. \<open>writeSchema\<close> writes a column
  with an empty type, wherever it stands among the columns, as its name, one space and the
  padding of the name, nothing for the type, then the padded constraint when there is
  one, the comma when a column follows, and the end of the line; a column with an empty
  constraint ends after its type. With the schema alone selected \<open>scaffoldCommand\<close>
  prints that text and two line ends.
\<close>

theorem C10_plain_empty_type:
  "(name \<noteq> [] \<and> sep_colon \<notin> set name \<and> sep_at \<notin> set name
      \<and> sep_colon \<notin> set ty \<and> sep_at \<notin> set ty
      \<and> sep_colon \<notin> set con \<and> sep_at \<notin> set con \<longrightarrow>
      (\<exists>i. parseColumnDefinition fl (plainForm2 name [])
             = Inr \<lparr>Name = name, Type = [], Constraint = [], ID = i\<rparr>)
      \<and> (\<exists>i. parseColumnDefinition fl (plainForm3 name [] [])
             = Inr \<lparr>Name = name, Type = [], Constraint = [], ID = i\<rparr>)
      \<and> (\<exists>i. parseColumnDefinition fl (plainForm3 name [] con)
             = Inr \<lparr>Name = name, Type = [], Constraint = con, ID = i\<rparr>)
      \<and> (\<exists>i. parseColumnDefinition fl (plainForm3 name ty [])
             = Inr \<lparr>Name = name, Type = ty, Constraint = [], ID = i\<rparr>))
   \<and> (Columns args = pre @ col # post \<and> Type col = [] \<longrightarrow>
        writeSchema [] args
          = ''CREATE TABLE '' @ (if NoExistsClause args then [] else ''IF NOT EXISTS '')
            @ Table args @ '' ('' @ newline
            @ writeSchema_loop [] args 0 pre
            @ ''  '' @ Name col @ '' ''
            @ replicate (nat (LongestName args - int (length (Name col)))) CHR '' ''
            @ (if Constraint col \<noteq> []
               then replicate (nat (LongestType args)) CHR '' '' @ '' '' @ Constraint col
               else [])
            @ (if post \<noteq> [] then '','' else [])
            @ newline
            @ writeSchema_loop [] args (Suc (length pre)) post
            @ '');'')
   \<and> (Columns args = pre @ col # post \<and> Constraint col = [] \<longrightarrow>
        writeSchema [] args
          = ''CREATE TABLE '' @ (if NoExistsClause args then [] else ''IF NOT EXISTS '')
            @ Table args @ '' ('' @ newline
            @ writeSchema_loop [] args 0 pre
            @ ''  '' @ Name col @ '' ''
            @ replicate (nat (LongestName args - int (length (Name col)))) CHR '' ''
            @ Type col
            @ (if post \<noteq> [] then '','' else [])
            @ newline
            @ writeSchema_loop [] args (Suc (length pre)) post
            @ '');'')
   \<and> (Output args = outputSchema \<longrightarrow>
        scaffoldCommand args = Some (writeSchema [] args @ newline @ newline))"
proof (intro conjI impI)
  assume a: "name \<noteq> [] \<and> sep_colon \<notin> set name \<and> sep_at \<notin> set name
      \<and> sep_colon \<notin> set ty \<and> sep_at \<notin> set ty
      \<and> sep_colon \<notin> set con \<and> sep_at \<notin> set con"
  then have n: "name \<noteq> []" "sep_colon \<notin> set name" "sep_at \<notin> set name"
    and t: "sep_colon \<notin> set ty" "sep_at \<notin> set ty"
    and c: "sep_colon \<notin> set con" "sep_at \<notin> set con"
    by blast+
  have e: "sep_colon \<notin> set []" "sep_at \<notin> set []" by simp_all
  show "\<exists>i. parseColumnDefinition fl (plainForm2 name [])
             = Inr \<lparr>Name = name, Type = [], Constraint = [], ID = i\<rparr>"
    using parseColumnDefinition_plain_forms(1) [OF n e e, of fl] by blast
  show "\<exists>i. parseColumnDefinition fl (plainForm3 name [] [])
             = Inr \<lparr>Name = name, Type = [], Constraint = [], ID = i\<rparr>"
    using parseColumnDefinition_plain_forms(2) [OF n e e, of fl] by blast
  show "\<exists>i. parseColumnDefinition fl (plainForm3 name [] con)
             = Inr \<lparr>Name = name, Type = [], Constraint = con, ID = i\<rparr>"
    using parseColumnDefinition_plain_forms(2) [OF n e c, of fl] by blast
  show "\<exists>i. parseColumnDefinition fl (plainForm3 name ty [])
             = Inr \<lparr>Name = name, Type = ty, Constraint = [], ID = i\<rparr>"
    using parseColumnDefinition_plain_forms(2) [OF n t e, of fl] by blast
next
  assume "Columns args = pre @ col # post \<and> Type col = []"
  then have c: "Columns args = pre @ col # post" and t: "Type col = []" by blast+
  show "writeSchema [] args
          = ''CREATE TABLE '' @ (if NoExistsClause args then [] else ''IF NOT EXISTS '')
            @ Table args @ '' ('' @ newline
            @ writeSchema_loop [] args 0 pre
            @ ''  '' @ Name col @ '' ''
            @ replicate (nat (LongestName args - int (length (Name col)))) CHR '' ''
            @ (if Constraint col \<noteq> []
               then replicate (nat (LongestType args)) CHR '' '' @ '' '' @ Constraint col
               else [])
            @ (if post \<noteq> [] then '','' else [])
            @ newline
            @ writeSchema_loop [] args (Suc (length pre)) post
            @ '');''"
    unfolding writeSchema_column [OF c] by (simp add: t)
next
  assume "Columns args = pre @ col # post \<and> Constraint col = []"
  then have c: "Columns args = pre @ col # post" and t: "Constraint col = []" by blast+
  show "writeSchema [] args
          = ''CREATE TABLE '' @ (if NoExistsClause args then [] else ''IF NOT EXISTS '')
            @ Table args @ '' ('' @ newline
            @ writeSchema_loop [] args 0 pre
            @ ''  '' @ Name col @ '' ''
            @ replicate (nat (LongestName args - int (length (Name col)))) CHR '' ''
            @ Type col
            @ (if post \<noteq> [] then '','' else [])
            @ newline
            @ writeSchema_loop [] args (Suc (length pre)) post
            @ '');''"
    unfolding writeSchema_column [OF c] by (simp add: t)
next
  assume "Output args = outputSchema"
  then show "scaffoldCommand args = Some (writeSchema [] args @ newline @ newline)"
    by (rule scaffoldCommand_schema_only)
qed

theorem C10_plain_empty_type_witness:
  "parseColumnDefinition defaultFlags ''a:''
     = Inr \<lparr>Name = ''a'', Type = [], Constraint = [], ID = False\<rparr>
   \<and> parseColumnDefinition defaultFlags ''a::''
     = Inr \<lparr>Name = ''a'', Type = [], Constraint = [], ID = False\<rparr>
   \<and> parseColumnDefinition defaultFlags ''a::c''
     = Inr \<lparr>Name = ''a'', Type = [], Constraint = ''c'', ID = False\<rparr>
   \<and> parseColumnDefinition defaultFlags ''a:t:''
     = Inr \<lparr>Name = ''a'', Type = ''t'', Constraint = [], ID = False\<rparr>
   \<and> scaffoldCommand
        \<lparr>Table = ''b'', SingularEntity = ''A'', PluralEntity = ''B'', IDColumn = None,
          Columns = [\<lparr>Name = ''a'', Type = [], Constraint = [], ID = False\<rparr>,
                     \<lparr>Name = ''n'', Type = ''TEXT'', Constraint = ''NOT NULL'', ID = False\<rparr>],
          NonIDColumns = [\<lparr>Name = ''a'', Type = [], Constraint = [], ID = False\<rparr>,
                     \<lparr>Name = ''n'', Type = ''TEXT'', Constraint = ''NOT NULL'', ID = False\<rparr>],
          LongestName = 1, LongestType = 4, NoExistsClause = False, OrderBy = [],
          NoReturningClause = False, Output = outputSchema\<rparr>
     = Some (''CREATE TABLE IF NOT EXISTS b ('' @ newline
             @ ''  a ,'' @ newline
             @ ''  n TEXT NOT NULL'' @ newline
             @ '');'' @ newline @ newline)"
proof -
  have l: "strings_ToLower ''a'' = ''a''" by code_simp
  show ?thesis
    using C10_plain_empty_type [of "''a''" "''t''" "''c''" defaultFlags
        "\<lparr>Table = ''b'', SingularEntity = ''A'', PluralEntity = ''B'', IDColumn = None,
          Columns = [\<lparr>Name = ''a'', Type = [], Constraint = [], ID = False\<rparr>,
                     \<lparr>Name = ''n'', Type = ''TEXT'', Constraint = ''NOT NULL'', ID = False\<rparr>],
          NonIDColumns = [\<lparr>Name = ''a'', Type = [], Constraint = [], ID = False\<rparr>,
                     \<lparr>Name = ''n'', Type = ''TEXT'', Constraint = ''NOT NULL'', ID = False\<rparr>],
          LongestName = 1, LongestType = 4, NoExistsClause = False, OrderBy = [],
          NoReturningClause = False, Output = outputSchema\<rparr>"
        "[]" "\<lparr>Name = ''a'', Type = [], Constraint = [], ID = False\<rparr>"
        "[\<lparr>Name = ''n'', Type = ''TEXT'', Constraint = ''NOT NULL'', ID = False\<rparr>]"]
      parseColumnDefinition_plain_forms [of "''a''" "[]" "[]" defaultFlags]
      parseColumnDefinition_plain_forms [of "''a''" "[]" "''c''" defaultFlags]
      parseColumnDefinition_plain_forms [of "''a''" "''t''" "[]" defaultFlags]
    by (simp add: l plainForm2_def plainForm3_def sep_colon_def sep_at_def defaultFlags_def
        Let_def writeSpaces_def)
qed

end
